theory Spec2Isabelle
  imports
    Main
    "HOL-Library.AList"
    "HOL-Library.Char_ord"
    "HOL-Library.List_Lexorder"
    "HOL-Library.Multiset"
    "HOL-Library.Word"
begin

section \<open>The request package of ochipin/request, embedded in HOL\<close>

text \<open>
  The package (\<^verbatim>\<open>request.go\<close>) assembles one outbound HTTP request from a
  \<^verbatim>\<open>Request\<close> value, sends it through a client with a timeout and classifies the
  response. The embedding follows the Go text function by function. Go maps are
  reference values, so the header map lives in an explicit store and a \<^verbatim>\<open>HeaderType\<close>
  value is a reference into it. The parts of the Go standard library whose behaviour the
  package only passes along (the URL parser, the JSON scanner, the network) are
  parameters of the model, collected in the record \<open>platform\<close>.
\<close>

subsection \<open>Errors\<close>

text \<open>
  \<^verbatim>\<open>type ResponseStatus struct { Code int; Message string }\<close> is the only error type
  the package declares. Every other error value comes out of the standard library and is
  passed to the caller unchanged. A write to a nil map makes the Go runtime panic.
\<close>

record ResponseStatus =
  Code :: int
  Message :: string

datatype lib_error = LibError string

datatype error =
    StatusError ResponseStatus
  | LibraryError lib_error
  | NilMapPanic

definition Error :: "ResponseStatus \<Rightarrow> string" where
  "Error status = Message status"

subsection \<open>HeaderType: a reference to a map from string to string\<close>

text \<open>
  \<^verbatim>\<open>type HeaderType map[string]string\<close>. The store maps each allocated address to the
  contents of the map that lives there, an association list with one entry per key;
  \<open>fresh\<close> is the next unused address. A \<^verbatim>\<open>HeaderType\<close> value is \<open>None\<close> (the nil
  map) or \<open>Some a\<close>, a reference to the map at address \<open>a\<close>. A method with the receiver
  \<^verbatim>\<open>header HeaderType\<close> gets a copy of the reference: writes through it
  (\<^verbatim>\<open>header[key] = value\<close>, \<^verbatim>\<open>delete\<close>) reach the map the caller holds, an assignment to
  the variable \<^verbatim>\<open>header\<close> itself does not.
\<close>

type_synonym addr = nat

type_synonym HeaderType = "addr option"

record store =
  cells :: "addr \<Rightarrow> (string \<times> string) list"
  fresh :: addr

definition empty_store :: store where
  "empty_store = \<lparr>cells = (\<lambda>_. []), fresh = 0\<rparr>"

text \<open>\<^verbatim>\<open>make(HeaderType)\<close>: a new empty map at an unused address.\<close>

definition make_HeaderType :: "store \<Rightarrow> store \<times> HeaderType" where
  "make_HeaderType s =
     (s\<lparr>cells := (cells s)(fresh s := []), fresh := Suc (fresh s)\<rparr>, Some (fresh s))"

text \<open>
  \<^verbatim>\<open>func (header HeaderType) Add(key string, value string) { header[key] = value }\<close>
\<close>

definition HeaderType_Add :: "store \<Rightarrow> HeaderType \<Rightarrow> string \<Rightarrow> string \<Rightarrow> error + store" where
  "HeaderType_Add s header key v =
     (case header of
        None \<Rightarrow> Inl NilMapPanic
      | Some a \<Rightarrow> Inr (s\<lparr>cells := (cells s)(a := AList.update key v (cells s a))\<rparr>))"

text \<open>
  \<^verbatim>\<open>func (header HeaderType) Del(key string) {
      if _, ok := header[key]; ok { delete(header, key) } }\<close>
\<close>

definition HeaderType_Del :: "store \<Rightarrow> HeaderType \<Rightarrow> string \<Rightarrow> store" where
  "HeaderType_Del s header key =
     (case header of
        None \<Rightarrow> s
      | Some a \<Rightarrow>
          (case map_of (cells s a) key of
             Some _ \<Rightarrow> s\<lparr>cells := (cells s)(a := AList.delete key (cells s a))\<rparr>
           | None \<Rightarrow> s))"

text \<open>
  \<^verbatim>\<open>func (header HeaderType) Get(key string) string {
      if v, ok := header[key]; ok { return v }
      return "" }\<close>
\<close>

definition HeaderType_Get :: "store \<Rightarrow> HeaderType \<Rightarrow> string \<Rightarrow> string" where
  "HeaderType_Get s header key =
     (case header of
        None \<Rightarrow> ''''
      | Some a \<Rightarrow> (case map_of (cells s a) key of Some v \<Rightarrow> v | None \<Rightarrow> ''''))"

text \<open>
  \<^verbatim>\<open>func (header HeaderType) Clear() { header = make(HeaderType) }\<close>

  The new map is bound to the method's own variable \<^verbatim>\<open>header\<close>, which goes out of scope
  at the return. The method returns nothing, so all the caller gets back is the store.
\<close>

definition HeaderType_Clear :: "store \<Rightarrow> HeaderType \<Rightarrow> store" where
  "HeaderType_Clear s header = (let (s', header') = make_HeaderType s in s')"

subsection \<open>Standard library: strings, net/url values, base64, header names\<close>

text \<open>
  The functions of this part belong to the Go standard library. They are deterministic
  and small, and they are written out after the library's documentation so that the
  package's results can be computed.
\<close>

text \<open>
  \<^verbatim>\<open>strings.Index(s, substr)\<close>: the index of the first instance of \<^verbatim>\<open>substr\<close> in
  \<^verbatim>\<open>s\<close>, or -1 if there is none.
\<close>

fun strings_Index :: "string \<Rightarrow> string \<Rightarrow> int" where
  "strings_Index [] substr = (if substr = [] then 0 else - 1)"
| "strings_Index (c # s) substr =
     (if take (length substr) (c # s) = substr then 0
      else (let i = strings_Index s substr in if i = - 1 then - 1 else i + 1))"

text \<open>
  \<^verbatim>\<open>url.Values\<close> is \<^verbatim>\<open>map[string][]string\<close>, here an association list with one
  entry per key; a slice is the list of its elements. \<^verbatim>\<open>Values.Add\<close> appends to the
  key's slice: \<^verbatim>\<open>v[key] = append(v[key], value)\<close>.
\<close>

type_synonym Values = "(string \<times> string list) list"

fun Values_Add :: "string \<Rightarrow> string \<Rightarrow> Values \<Rightarrow> Values" where
  "Values_Add key v [] = [(key, [v])]"
| "Values_Add key v ((k, vs) # rest) =
     (if k = key then (k, vs @ [v]) # rest else (k, vs) # Values_Add key v rest)"

definition Values_lookup :: "Values \<Rightarrow> string \<Rightarrow> string list" where
  "Values_lookup m key = (case map_of m key of Some vs \<Rightarrow> vs | None \<Rightarrow> [])"

text \<open>All key/value pairs a store holds, each value of a key counted.\<close>

definition Values_pairs :: "Values \<Rightarrow> (string \<times> string) list" where
  "Values_pairs m = concat (map (\<lambda>(k, vs). map (Pair k) vs) m)"

text \<open>
  \<^verbatim>\<open>url.QueryEscape\<close>: letters, digits and \<^verbatim>\<open>-_.~\<close> stay, a space becomes \<^verbatim>\<open>+\<close>, every
  other byte becomes \<^verbatim>\<open>%XX\<close> in upper-case hexadecimal.
\<close>

definition between :: "char \<Rightarrow> char \<Rightarrow> char \<Rightarrow> bool" where
  "between lo hi c = (lo \<le> c \<and> c \<le> hi)"

definition isAlnum :: "char \<Rightarrow> bool" where
  "isAlnum c =
     (between (CHR ''a'') (CHR ''z'') c \<or> between (CHR ''A'') (CHR ''Z'') c \<or>
      between (CHR ''0'') (CHR ''9'') c)"

definition shouldEscape :: "char \<Rightarrow> bool" where
  "shouldEscape c = (\<not> isAlnum c \<and> c \<notin> set ''-_.~'')"

definition upperhex :: "nat \<Rightarrow> char" where
  "upperhex n = ''0123456789ABCDEF'' ! n"

fun QueryEscape :: "string \<Rightarrow> string" where
  "QueryEscape [] = []"
| "QueryEscape (c # s) =
     (if shouldEscape c then
        (if c = CHR '' '' then ''+''
         else [CHR ''%'', upperhex (of_char c div 16), upperhex (of_char c mod 16)])
      else [c]) @ QueryEscape s"

fun join :: "string \<Rightarrow> string list \<Rightarrow> string" where
  "join sep [] = []"
| "join sep [x] = x"
| "join sep (x # y # ys) = x @ sep @ join sep (y # ys)"

text \<open>
  \<^verbatim>\<open>Values.Encode\<close>: the keys in sorted order, for each key its values in order, each
  as \<^verbatim>\<open>key=value\<close> with both sides escaped, joined by \<^verbatim>\<open>&\<close>.
\<close>

definition Values_Encode :: "Values \<Rightarrow> string" where
  "Values_Encode m =
     join ''&''
       (concat (map (\<lambda>k. map (\<lambda>v. QueryEscape k @ ''='' @ QueryEscape v) (Values_lookup m k))
          (sort (map fst m))))"

text \<open>\<^verbatim>\<open>base64.StdEncoding.EncodeToString\<close> (RFC 4648, with padding), on byte values.\<close>

definition encodeStd :: "nat \<Rightarrow> char" where
  "encodeStd n =
     ''ABCDEFGHIJKLMNOPQRSTUVWXYZabcdefghijklmnopqrstuvwxyz0123456789+/'' ! n"

fun base64_bytes :: "nat list \<Rightarrow> string" where
  "base64_bytes (a # b # c # rest) =
     [encodeStd (a div 4), encodeStd ((a mod 4) * 16 + b div 16),
      encodeStd ((b mod 16) * 4 + c div 64), encodeStd (c mod 64)] @ base64_bytes rest"
| "base64_bytes [a, b] =
     [encodeStd (a div 4), encodeStd ((a mod 4) * 16 + b div 16),
      encodeStd ((b mod 16) * 4), CHR ''='']"
| "base64_bytes [a] = [encodeStd (a div 4), encodeStd ((a mod 4) * 16), CHR ''='', CHR ''='']"
| "base64_bytes [] = []"

definition EncodeToString :: "string \<Rightarrow> string" where
  "EncodeToString src = base64_bytes (map of_char src)"

text \<open>
  \<^verbatim>\<open>http.Header\<close> is \<^verbatim>\<open>map[string][]string\<close> too. Its methods first bring the name into
  canonical form (\<^verbatim>\<open>textproto.CanonicalMIMEHeaderKey\<close>): a name made of token bytes gets
  an upper-case first letter and an upper-case letter after each hyphen, all other
  letters in lower case; a name with any other byte is left as it is.
\<close>

definition validHeaderFieldByte :: "char \<Rightarrow> bool" where
  "validHeaderFieldByte c = (isAlnum c \<or> c \<in> set ''!#$%&*+-.^_`|~'' \<or> c = CHR 0x27)"

fun canonical_bytes :: "bool \<Rightarrow> string \<Rightarrow> string" where
  "canonical_bytes upper [] = []"
| "canonical_bytes upper (c # s) =
     (let c' =
        (if upper \<and> between (CHR ''a'') (CHR ''z'') c then char_of (of_char c - (32 :: nat))
         else if \<not> upper \<and> between (CHR ''A'') (CHR ''Z'') c then char_of (of_char c + (32 :: nat))
         else c)
      in c' # canonical_bytes (c' = CHR ''-'') s)"

definition CanonicalMIMEHeaderKey :: "string \<Rightarrow> string" where
  "CanonicalMIMEHeaderKey s = (if list_all validHeaderFieldByte s then canonical_bytes True s else s)"

type_synonym http_Header = "(string \<times> string list) list"

definition Header_Set :: "string \<Rightarrow> string \<Rightarrow> http_Header \<Rightarrow> http_Header" where
  "Header_Set key v h = AList.update (CanonicalMIMEHeaderKey key) [v] h"

definition Header_Add :: "string \<Rightarrow> string \<Rightarrow> http_Header \<Rightarrow> http_Header" where
  "Header_Add key v h = Values_Add (CanonicalMIMEHeaderKey key) v h"

definition Header_Get :: "http_Header \<Rightarrow> string \<Rightarrow> string" where
  "Header_Get h key =
     (case Values_lookup h (CanonicalMIMEHeaderKey key) of [] \<Rightarrow> '''' | v # _ \<Rightarrow> v)"

subsection \<open>Standard library: JSON values\<close>

text \<open>
  A JSON text denotes a JSON value. \<^verbatim>\<open>json.Marshal\<close> of a \<^verbatim>\<open>map[string][]string\<close>
  writes an object with the keys in sorted order, the value of each key being the array
  of its strings; the way one string is quoted and escaped is left to the platform.
  (A slice is modelled by its elements, so a nil slice, which Go writes as
  \<^verbatim>\<open>null\<close>, is not told apart from an empty one; \<^verbatim>\<open>Values.Add\<close> never leaves either.)
\<close>

datatype json =
    JNull
  | JBool bool
  | JNumber string
  | JString string
  | JArray "json list"
  | JObject "(string \<times> json) list"

fun json_text :: "(string \<Rightarrow> string) \<Rightarrow> json \<Rightarrow> string" where
  "json_text q JNull = ''null''"
| "json_text q (JBool b) = (if b then ''true'' else ''false'')"
| "json_text q (JNumber n) = n"
| "json_text q (JString s) = q s"
| "json_text q (JArray xs) = ''['' @ join '','' (map (json_text q) xs) @ '']''"
| "json_text q (JObject ms) =
     ''{'' @ join '','' (map (\<lambda>m. q (fst m) @ '':'' @ json_text q (snd m)) ms) @ ''}''"

definition json_of_Values :: "Values \<Rightarrow> json" where
  "json_of_Values m =
     JObject (map (\<lambda>k. (k, JArray (map JString (Values_lookup m k)))) (sort (map fst m)))"

text \<open>
  \<^verbatim>\<open>json.Unmarshal\<close> into a \<^verbatim>\<open>map[string]string\<close>, on the value the text denotes:
  \<^verbatim>\<open>null\<close> is accepted and stores nothing; an object is accepted when each member's
  value is a string or \<^verbatim>\<open>null\<close> (stored as the empty string), a later member
  replacing an earlier one of the same name; every other value is a type error.
\<close>

fun decode_string :: "json \<Rightarrow> string option" where
  "decode_string (JString s) = Some s"
| "decode_string JNull = Some ''''"
| "decode_string _ = None"

fun decode_members :: "(string \<times> json) list \<Rightarrow> (string \<times> string) list \<Rightarrow> (string \<times> string) list option" where
  "decode_members [] m = Some m"
| "decode_members ((k, x) # ms) m =
     (case decode_string x of
        None \<Rightarrow> None
      | Some v \<Rightarrow> decode_members ms (AList.update k v m))"

fun decode_map :: "json \<Rightarrow> (string \<times> string) list option" where
  "decode_map JNull = Some []"
| "decode_map (JObject ms) = decode_members ms []"
| "decode_map _ = None"

subsection \<open>The platform\<close>

text \<open>
  \<^verbatim>\<open>url.URL\<close>, \<^verbatim>\<open>http.Request\<close>, \<^verbatim>\<open>http.Response\<close>, \<^verbatim>\<open>http.Transport\<close> and
  \<^verbatim>\<open>http.Client\<close>, with the fields the package reads or writes. The body of a response
  is a stream; what matters of it is what \<^verbatim>\<open>ioutil.ReadAll\<close> makes of it: all its bytes,
  or an error. A duration is a signed 64-bit count of nanoseconds.
\<close>

record url_URL =
  Scheme :: string
  Host :: string
  Path :: string
  RawQuery :: string

record http_Request =
  ReqMethod :: string
  ReqURL :: url_URL
  ReqHeader :: http_Header
  ReqBody :: "string option"

record http_Response =
  StatusCode :: int
  Status :: string
  RespBody :: "lib_error + string"

record tls_Config =
  InsecureSkipVerify :: bool

record http_Transport =
  TransportProxy :: "url_URL option"
  TLSClientConfig :: "tls_Config option"

record http_Client =
  ClientTimeout :: "64 word"
  ClientTransport :: http_Transport

text \<open>
  What the package takes from its surroundings as it finds it:
  \<^item> \<open>url_Parse\<close>: \<^verbatim>\<open>url.Parse\<close>;
  \<^item> \<open>query_pairs\<close>: the key/value pairs \<^verbatim>\<open>url.ParseQuery\<close> decodes from a raw query,
    in the order in which they stand there;
  \<^item> \<open>http_NewRequest\<close>: \<^verbatim>\<open>http.NewRequest(method, url, body)\<close>;
  \<^item> \<open>json_scan\<close>: the JSON value a text denotes, \<open>None\<close> for a text that is not JSON;
  \<^item> \<open>json_string\<close>: the JSON text of one string, as \<^verbatim>\<open>json.Marshal\<close> writes it;
  \<^item> \<open>client_Do\<close>: \<^verbatim>\<open>client.Do(req)\<close>, the network's answer to a request.
\<close>

record platform =
  url_Parse :: "string \<Rightarrow> lib_error + url_URL"
  query_pairs :: "string \<Rightarrow> (string \<times> string) list"
  http_NewRequest :: "string \<Rightarrow> string \<Rightarrow> string option \<Rightarrow> lib_error + http_Request"
  json_scan :: "string \<Rightarrow> json option"
  json_string :: "string \<Rightarrow> string"
  client_Do :: "http_Client \<Rightarrow> http_Request \<Rightarrow> lib_error + http_Response"

text \<open>
  \<^verbatim>\<open>u.Query()\<close> is \<^verbatim>\<open>ParseQuery(u.RawQuery)\<close> with the error dropped; \<^verbatim>\<open>ParseQuery\<close>
  appends each decoded pair to its key's slice.
\<close>

definition URL_Query :: "platform \<Rightarrow> url_URL \<Rightarrow> Values" where
  "URL_Query P u = fold (\<lambda>(k, v) m. Values_Add k v m) (query_pairs P (RawQuery u)) []"

definition json_Marshal :: "platform \<Rightarrow> Values \<Rightarrow> lib_error + string" where
  "json_Marshal P m = Inr (json_text (json_string P) (json_of_Values m))"

definition json_Unmarshal :: "platform \<Rightarrow> string \<Rightarrow> lib_error + (string \<times> string) list" where
  "json_Unmarshal P j =
     (case json_scan P j of
        None \<Rightarrow> Inl (LibError ''json: syntax error'')
      | Some v \<Rightarrow>
          (case decode_map v of
             None \<Rightarrow> Inl (LibError ''json: cannot unmarshal into Go value of type map[string]string'')
           | Some m \<Rightarrow> Inr m))"

text \<open>
  \<^verbatim>\<open>req.SetBasicAuth(username, password)\<close> sets the header \<^verbatim>\<open>Authorization\<close> to
  \<^verbatim>\<open>"Basic " + base64(username + ":" + password)\<close>.
\<close>

definition SetBasicAuth :: "string \<Rightarrow> string \<Rightarrow> http_Request \<Rightarrow> http_Request" where
  "SetBasicAuth username password req =
     req\<lparr>ReqHeader :=
       Header_Set ''Authorization'' (''Basic '' @ EncodeToString (username @ '':'' @ password))
         (ReqHeader req)\<rparr>"

subsection \<open>Request\<close>

text \<open>
  \<^verbatim>\<open>type Proxy struct { URL, Username, Password string }\<close> and
  \<^verbatim>\<open>type Request struct { URL, Username, Password string; Timeout int; Insecure bool;
  Proxy Proxy; values *url.Values; header HeaderType }\<close>.
  \<^verbatim>\<open>int\<close> is the 64-bit integer of the usual targets, read as signed. \<^verbatim>\<open>values\<close> is
  \<open>None\<close> for the nil pointer; the map behind it is reached through this field only and
  is kept by value. \<^verbatim>\<open>header\<close> is a reference into the store. A method with the
  receiver \<^verbatim>\<open>r *Request\<close> returns the \<^verbatim>\<open>Request\<close> as it leaves it.
\<close>

record Proxy =
  ProxyURL :: string
  ProxyUsername :: string
  ProxyPassword :: string

record Request =
  URL :: string
  Username :: string
  Password :: string
  Timeout :: "64 word"
  Insecure :: bool
  Proxy :: Proxy
  "values" :: "Values option"
  header :: HeaderType

text \<open>
  \<^verbatim>\<open>func (r *Request) Header() HeaderType {
      if r.header == nil { r.header = make(HeaderType) }
      return r.header }\<close>
\<close>

definition Request_Header :: "store \<Rightarrow> Request \<Rightarrow> store \<times> Request \<times> HeaderType" where
  "Request_Header s r =
     (case header r of
        None \<Rightarrow> (let (s', h) = make_HeaderType s in (s', r\<lparr>header := h\<rparr>, h))
      | Some a \<Rightarrow> (s, r, Some a))"

text \<open>
  \<^verbatim>\<open>func (r *Request) Values() url.Values {
      if r.values == nil { r.values = &url.Values{} }
      return *r.values }\<close>

  The map returned is the one \<^verbatim>\<open>r.values\<close> points to, so \<^verbatim>\<open>r.Values().Add(k, v)\<close>
  changes the map of \<^verbatim>\<open>r\<close>; \<open>Values_Add_to\<close> is that statement.
\<close>

definition Request_Values :: "Request \<Rightarrow> Request \<times> Values" where
  "Request_Values r =
     (case values r of
        None \<Rightarrow> (r\<lparr>values := Some []\<rparr>, [])
      | Some m \<Rightarrow> (r, m))"

definition Values_Add_to :: "string \<Rightarrow> string \<Rightarrow> Request \<Rightarrow> Request" where
  "Values_Add_to k v r = (let (r', m) = Request_Values r in r'\<lparr>values := Some (Values_Add k v m)\<rparr>)"

text \<open>
  \<^verbatim>\<open>for k, v1 := range q { for _, v2 := range v1 { r.Values().Add(k, v2) } }\<close>, the
  loop of \<^verbatim>\<open>Get\<close> over \<^verbatim>\<open>u.Query()\<close>. Go visits the keys of a map in no fixed order;
  additions under different keys do not touch each other, so the order of the list is
  taken.
\<close>

definition add_all :: "Values \<Rightarrow> Request \<Rightarrow> Request" where
  "add_all q r = fold (\<lambda>(k, v1) r. fold (\<lambda>v2 r. Values_Add_to k v2 r) v1 r) q r"

text \<open>
  \<^verbatim>\<open>func (r *Request) Request(method, username, password string, data io.Reader)
      (*http.Request, error) {
      req, err := http.NewRequest(method, r.URL, data)
      if err != nil { return nil, err }
      for k, v := range r.header { req.Header.Set(k, v) }
      if username != "" && password != "" { req.SetBasicAuth(username, password) }
      return req, nil }\<close>

  Go ranges over a map in no fixed order; the order of the list is taken. The order
  shows only when two names of \<^verbatim>\<open>r.header\<close> have the same canonical form.
\<close>

definition header_entries :: "store \<Rightarrow> HeaderType \<Rightarrow> (string \<times> string) list" where
  "header_entries s h = (case h of None \<Rightarrow> [] | Some a \<Rightarrow> cells s a)"

definition Request_Request ::
  "platform \<Rightarrow> store \<Rightarrow> Request \<Rightarrow> string \<Rightarrow> string \<Rightarrow> string \<Rightarrow> string option
     \<Rightarrow> lib_error + http_Request" where
  "Request_Request P s r method username password data =
     (case http_NewRequest P method (URL r) data of
        Inl err \<Rightarrow> Inl err
      | Inr req \<Rightarrow>
          (let req1 = fold (\<lambda>(k, v) q. q\<lparr>ReqHeader := Header_Set k v (ReqHeader q)\<rparr>)
                        (header_entries s (header r)) req;
               req2 = (if username \<noteq> '''' \<and> password \<noteq> ''''
                       then SetBasicAuth username password req1 else req1)
           in Inr req2))"

text \<open>
  \<^verbatim>\<open>func (r *Request) Transport(req *http.Request) (*http.Transport, error) {
      var transport = &http.Transport{}
      if r.Proxy.URL != "" {
          proxy, err := url.Parse(r.Proxy.URL)
          if err != nil { return nil, err }
          transport.Proxy = http.ProxyURL(proxy)
          if r.Proxy.Username != "" && r.Proxy.Password != "" {
              auth := r.Proxy.Username + ":" + r.Proxy.Password
              basic := "Basic " + base64.StdEncoding.EncodeToString([]byte(auth))
              req.Header.Add("Proxy-Ahthorization", basic)
          }
      }
      if strings.Index(r.URL, "https://") == 0 && r.Insecure {
          transport.TLSClientConfig = &tls.Config{InsecureSkipVerify: r.Insecure}
      }
      return transport, nil }\<close>

  The request is written through the pointer \<^verbatim>\<open>req\<close>, so it is returned with the
  transport.
\<close>

definition Transport_tls :: "Request \<Rightarrow> http_Transport \<Rightarrow> http_Transport" where
  "Transport_tls r transport =
     (if strings_Index (URL r) ''https://'' = 0 \<and> Insecure r
      then transport\<lparr>TLSClientConfig := Some \<lparr>InsecureSkipVerify = Insecure r\<rparr>\<rparr>
      else transport)"

definition Request_Transport ::
  "platform \<Rightarrow> Request \<Rightarrow> http_Request \<Rightarrow> lib_error + (http_Request \<times> http_Transport)" where
  "Request_Transport P r req =
     (let transport = \<lparr>TransportProxy = None, TLSClientConfig = None\<rparr> in
      if ProxyURL (Proxy r) \<noteq> '''' then
        (case url_Parse P (ProxyURL (Proxy r)) of
           Inl err \<Rightarrow> Inl err
         | Inr proxy \<Rightarrow>
             (let transport1 = transport\<lparr>TransportProxy := Some proxy\<rparr>;
                  req1 =
                    (if ProxyUsername (Proxy r) \<noteq> '''' \<and> ProxyPassword (Proxy r) \<noteq> '''' then
                       (let auth = ProxyUsername (Proxy r) @ '':'' @ ProxyPassword (Proxy r);
                            basic = ''Basic '' @ EncodeToString auth
                        in req\<lparr>ReqHeader := Header_Add ''Proxy-Ahthorization'' basic (ReqHeader req)\<rparr>)
                     else req)
              in Inr (req1, Transport_tls r transport1)))
      else Inr (req, Transport_tls r transport))"

text \<open>
  \<^verbatim>\<open>func (r *Request) Send(req *http.Request, transport *http.Transport)
      ([]byte, *http.Response, error) {
      var timeout = r.Timeout
      if timeout <= 0 { timeout = 10 }
      client := http.Client{
          Timeout: time.Duration(timeout) * time.Millisecond, Transport: transport }
      res, err := client.Do(req)
      if err != nil { return nil, nil, err }
      defer res.Body.Close()
      buf, err := ioutil.ReadAll(res.Body)
      if err != nil { return nil, nil, err }
      if !(res.StatusCode >= 200 && res.StatusCode <= 299) {
          return buf, res, &ResponseStatus{Code: res.StatusCode, Message: res.Status}
      }
      return buf, res, nil }\<close>

  \<^verbatim>\<open>time.Millisecond\<close> is 1000000 nanoseconds, and the product is taken in 64 bits.
  A result is the triple of the bytes, the response and the error, each \<open>None\<close> for nil.
\<close>

type_synonym result = "string option \<times> http_Response option \<times> error option"

definition Send_client :: "Request \<Rightarrow> http_Transport \<Rightarrow> http_Client" where
  "Send_client r transport =
     (let timeout = (if sint (Timeout r) \<le> 0 then 10 else Timeout r)
      in \<lparr>ClientTimeout = timeout * 1000000, ClientTransport = transport\<rparr>)"

definition Request_Send :: "platform \<Rightarrow> Request \<Rightarrow> http_Request \<Rightarrow> http_Transport \<Rightarrow> result" where
  "Request_Send P r req transport =
     (case client_Do P (Send_client r transport) req of
        Inl err \<Rightarrow> (None, None, Some (LibraryError err))
      | Inr res \<Rightarrow>
          (case RespBody res of
             Inl err \<Rightarrow> (None, None, Some (LibraryError err))
           | Inr buf \<Rightarrow>
               if \<not> (StatusCode res \<ge> 200 \<and> StatusCode res \<le> 299) then
                 (Some buf, Some res,
                  Some (StatusError \<lparr>Code = StatusCode res, Message = Status res\<rparr>))
               else (Some buf, Some res, None)))"

subsection \<open>Get\<close>

text \<open>
  \<^verbatim>\<open>func (r *Request) Get() ([]byte, *http.Response, error) {
      if idx := strings.Index(r.URL, "?"); idx != -1 {
          if u, err := url.Parse(r.URL); err == nil {
              for k, v1 := range u.Query() {
                  for _, v2 := range v1 { r.Values().Add(k, v2) }
              }
          }
          r.URL = r.URL[:idx]
      }
      req, err := r.Request("GET", r.Username, r.Password, nil)
      if err != nil { return nil, nil, err }
      if r.values != nil { req.URL.RawQuery = r.values.Encode() }
      transport, err := r.Transport(req)
      if err != nil { return nil, nil, err }
      return r.Send(req, transport) }\<close>

  The function is cut at its comments: \<open>Get_merge\<close> is the first \<^verbatim>\<open>if\<close>, \<open>Get_assemble\<close>
  runs from \<^verbatim>\<open>r.Request\<close> to \<^verbatim>\<open>r.Transport\<close> and yields the request and the transport
  that \<^verbatim>\<open>Send\<close> is called with.
\<close>

definition Get_merge :: "platform \<Rightarrow> Request \<Rightarrow> Request" where
  "Get_merge P r =
     (let idx = strings_Index (URL r) ''?'' in
      if idx \<noteq> - 1 then
        (let r1 = (case url_Parse P (URL r) of
                     Inr u \<Rightarrow> add_all (URL_Query P u) r
                   | Inl err \<Rightarrow> r)
         in r1\<lparr>URL := take (nat idx) (URL r1)\<rparr>)
      else r)"

definition Get_assemble ::
  "platform \<Rightarrow> store \<Rightarrow> Request \<Rightarrow> lib_error + (http_Request \<times> http_Transport)" where
  "Get_assemble P s r =
     (case Request_Request P s r ''GET'' (Username r) (Password r) None of
        Inl err \<Rightarrow> Inl err
      | Inr req \<Rightarrow>
          (let req1 = (case values r of
                         Some m \<Rightarrow> req\<lparr>ReqURL := (ReqURL req)\<lparr>RawQuery := Values_Encode m\<rparr>\<rparr>
                       | None \<Rightarrow> req)
           in Request_Transport P r req1))"

definition Request_Get :: "platform \<Rightarrow> store \<Rightarrow> Request \<Rightarrow> Request \<times> result" where
  "Request_Get P s r =
     (let r1 = Get_merge P r in
      case Get_assemble P s r1 of
        Inl err \<Rightarrow> (r1, None, None, Some (LibraryError err))
      | Inr (req, transport) \<Rightarrow> (r1, Request_Send P r1 req transport))"

subsection \<open>Submit and the verbs built on it\<close>

text \<open>
  \<^verbatim>\<open>func (r *Request) Submit(method string) ([]byte, *http.Response, error) {
      var rawQuery string
      if idx := strings.Index(r.URL, "?"); idx != -1 {
          values := url.Values{}
          if u, err := url.Parse(r.URL); err == nil {
              for k, v1 := range u.Query() {
                  for _, v2 := range v1 { values.Add(k, v2) }
              }
              rawQuery = values.Encode()
          }
          r.URL = r.URL[:idx]
      }
      if r.header == nil || r.Header().Get("Content-Type") == "" {
          r.Header().Add("Content-Type", "application/x-www-form-urlencoded")
      }
      var data io.Reader
      if r.values != nil {
          switch r.header.Get("Content-Type") {
          case "application/json", "text/json", "text/x-json":
              if buf, err := json.Marshal(r.values); err == nil { data = bytes.NewBuffer(buf) }
          default:
              data = strings.NewReader(r.values.Encode())
          }
      }
      req, err := r.Request(method, r.Username, r.Password, data)
      if err != nil { return nil, nil, err }
      if rawQuery != "" { req.URL.RawQuery = rawQuery }
      transport, err := r.Transport(req)
      if err != nil { return nil, nil, err }
      return r.Send(req, transport) }\<close>

  Cut at its comments: \<open>Submit_query\<close> (the query of the URL), \<open>Submit_header\<close> (the
  default content type), \<open>Submit_data\<close> (the body: \<open>None\<close> is the nil reader, \<open>Some b\<close> a
  reader over the bytes \<open>b\<close>), \<open>Submit_assemble\<close> (from \<^verbatim>\<open>r.Request\<close> to
  \<^verbatim>\<open>r.Transport\<close>).
\<close>

definition Submit_query :: "platform \<Rightarrow> Request \<Rightarrow> string \<times> Request" where
  "Submit_query P r =
     (let idx = strings_Index (URL r) ''?'' in
      if idx \<noteq> - 1 then
        (let rawQuery =
               (case url_Parse P (URL r) of
                  Inr u \<Rightarrow>
                    Values_Encode
                      (fold (\<lambda>(k, v1) m. fold (\<lambda>v2 m. Values_Add k v2 m) v1 m) (URL_Query P u) [])
                | Inl err \<Rightarrow> '''')
         in (rawQuery, r\<lparr>URL := take (nat idx) (URL r)\<rparr>))
      else ('''', r))"

definition Submit_header :: "store \<Rightarrow> Request \<Rightarrow> error + (store \<times> Request)" where
  "Submit_header s r =
     (if header r = None \<or> HeaderType_Get s (header r) ''Content-Type'' = '''' then
        (let (s1, r1, h) = Request_Header s r in
         case HeaderType_Add s1 h ''Content-Type'' ''application/x-www-form-urlencoded'' of
           Inl e \<Rightarrow> Inl e
         | Inr s2 \<Rightarrow> Inr (s2, r1))
      else Inr (s, r))"

definition Submit_data :: "platform \<Rightarrow> store \<Rightarrow> Request \<Rightarrow> string option" where
  "Submit_data P s r =
     (case values r of
        None \<Rightarrow> None
      | Some m \<Rightarrow>
          (let ct = HeaderType_Get s (header r) ''Content-Type'' in
           if ct = ''application/json'' \<or> ct = ''text/json'' \<or> ct = ''text/x-json'' then
             (case json_Marshal P m of Inr buf \<Rightarrow> Some buf | Inl err \<Rightarrow> None)
           else Some (Values_Encode m)))"

definition Submit_assemble ::
  "platform \<Rightarrow> store \<Rightarrow> Request \<Rightarrow> string \<Rightarrow> string \<Rightarrow> string option
     \<Rightarrow> lib_error + (http_Request \<times> http_Transport)" where
  "Submit_assemble P s r method rawQuery data =
     (case Request_Request P s r method (Username r) (Password r) data of
        Inl err \<Rightarrow> Inl err
      | Inr req \<Rightarrow>
          (let req1 = (if rawQuery \<noteq> ''''
                       then req\<lparr>ReqURL := (ReqURL req)\<lparr>RawQuery := rawQuery\<rparr>\<rparr> else req)
           in Request_Transport P r req1))"

definition Request_Submit :: "platform \<Rightarrow> store \<Rightarrow> Request \<Rightarrow> string \<Rightarrow> store \<times> Request \<times> result" where
  "Request_Submit P s r method =
     (let (rawQuery, r1) = Submit_query P r in
      case Submit_header s r1 of
        Inl e \<Rightarrow> (s, r1, None, None, Some e)
      | Inr (s2, r2) \<Rightarrow>
          (case Submit_assemble P s2 r2 method rawQuery (Submit_data P s2 r2) of
             Inl err \<Rightarrow> (s2, r2, None, None, Some (LibraryError err))
           | Inr (req, transport) \<Rightarrow> (s2, r2, Request_Send P r2 req transport)))"

definition Request_Post :: "platform \<Rightarrow> store \<Rightarrow> Request \<Rightarrow> store \<times> Request \<times> result" where
  "Request_Post P s r = Request_Submit P s r ''POST''"

definition Request_Put :: "platform \<Rightarrow> store \<Rightarrow> Request \<Rightarrow> store \<times> Request \<times> result" where
  "Request_Put P s r = Request_Submit P s r ''PUT''"

definition Request_Delete :: "platform \<Rightarrow> store \<Rightarrow> Request \<Rightarrow> store \<times> Request \<times> result" where
  "Request_Delete P s r = Request_Submit P s r ''DELETE''"

definition Request_Patch :: "platform \<Rightarrow> store \<Rightarrow> Request \<Rightarrow> store \<times> Request \<times> result" where
  "Request_Patch P s r = Request_Submit P s r ''PATCH''"

subsection \<open>JSON\<close>

text \<open>
  \<^verbatim>\<open>func (r *Request) JSON(j []byte) error {
      values := make(map[string]string)
      if err := json.Unmarshal(j, &values); err != nil { return err }
      for k, v := range values { r.Values().Add(k, v) }
      r.Header().Add("Content-Type", "application/json")
      return nil }\<close>
\<close>

definition Request_JSON :: "platform \<Rightarrow> store \<Rightarrow> Request \<Rightarrow> string \<Rightarrow> store \<times> Request \<times> error option" where
  "Request_JSON P s r j =
     (case json_Unmarshal P j of
        Inl err \<Rightarrow> (s, r, Some (LibraryError err))
      | Inr m \<Rightarrow>
          (let r1 = fold (\<lambda>(k, v) r. Values_Add_to k v r) m r;
               (s1, r2, h) = Request_Header s r1
           in case HeaderType_Add s1 h ''Content-Type'' ''application/json'' of
                Inl e \<Rightarrow> (s1, r2, Some e)
              | Inr s2 \<Rightarrow> (s2, r2, None)))"

subsection \<open>Readings used in the statements\<close>

text \<open>
  The pairs and the encoding of a store that may not exist yet, and the first index of
  \<^verbatim>\<open>?\<close> as a prefix of the URL.
\<close>

definition store_pairs :: "Values option \<Rightarrow> (string \<times> string) list" where
  "store_pairs vo = (case vo of None \<Rightarrow> [] | Some m \<Rightarrow> Values_pairs m)"

definition store_Encode :: "Values option \<Rightarrow> string" where
  "store_Encode vo = (case vo of None \<Rightarrow> '''' | Some m \<Rightarrow> Values_Encode m)"

definition before_mark :: "string \<Rightarrow> string" where
  "before_mark url = takeWhile (\<lambda>c. c \<noteq> CHR ''?'') url"

text \<open>
  A response was received and its body was read to the end; the content types for which
  \<^verbatim>\<open>Submit\<close> writes JSON; the JSON values \<^verbatim>\<open>json.Unmarshal\<close> accepts for a map of
  strings.
\<close>

definition body_read :: "platform \<Rightarrow> http_Client \<Rightarrow> http_Request \<Rightarrow> bool" where
  "body_read P client req =
     (case client_Do P client req of
        Inl err \<Rightarrow> False
      | Inr res \<Rightarrow> (case RespBody res of Inl err \<Rightarrow> False | Inr buf \<Rightarrow> True))"

definition json_type :: "string \<Rightarrow> bool" where
  "json_type ct = (ct = ''application/json'' \<or> ct = ''text/json'' \<or> ct = ''text/x-json'')"

fun string_or_null :: "json \<Rightarrow> bool" where
  "string_or_null (JString s) = True"
| "string_or_null JNull = True"
| "string_or_null _ = False"

fun accepted :: "json \<Rightarrow> bool" where
  "accepted JNull = True"
| "accepted (JObject ms) = list_all (\<lambda>m. string_or_null (snd m)) ms"
| "accepted _ = False"

fun flat_string_object :: "json \<Rightarrow> bool" where
  "flat_string_object (JObject ms) = list_all (\<lambda>m. case snd m of JString s \<Rightarrow> True | _ \<Rightarrow> False) ms"
| "flat_string_object _ = False"

text \<open>
  A URL without \<^verbatim>\<open>?\<close> has no query: the property of \<^verbatim>\<open>http.NewRequest\<close> (through
  \<^verbatim>\<open>url.Parse\<close>) on which the raw query of a request without values rests.
\<close>

definition no_mark_no_query :: "platform \<Rightarrow> bool" where
  "no_mark_no_query P =
     (\<forall>method url data req.
        http_NewRequest P method url data = Inr req \<and> CHR ''?'' \<notin> set url
          \<longrightarrow> RawQuery (ReqURL req) = '''')"

text \<open>
  The body \<^verbatim>\<open>http.NewRequest\<close> gives a request, by its documentation: the bytes of the
  reader, and \<^verbatim>\<open>http.NoBody\<close> for a \<^verbatim>\<open>strings.Reader\<close> or \<^verbatim>\<open>bytes.Buffer\<close> with nothing
  to read, as for the nil reader. \<open>None\<close> stands for a request without a body.
\<close>

definition reader_body :: "string option \<Rightarrow> string option" where
  "reader_body data = (case data of None \<Rightarrow> None | Some b \<Rightarrow> if b = [] then None else Some b)"



text \<open>
  The response of a result, and whether a verb got as far as a response whose body was
  read to the end: the request and the transport are those the verb hands to \<^verbatim>\<open>Send\<close>.
\<close>

definition metadata :: "result \<Rightarrow> http_Response option" where
  "metadata res = fst (snd res)"

definition Get_exchange :: "platform \<Rightarrow> store \<Rightarrow> Request \<Rightarrow> bool" where
  "Get_exchange P s r =
     (let r1 = Get_merge P r in
      case Get_assemble P s r1 of
        Inl err \<Rightarrow> False
      | Inr (req, transport) \<Rightarrow> body_read P (Send_client r1 transport) req)"

definition Submit_exchange :: "platform \<Rightarrow> store \<Rightarrow> Request \<Rightarrow> string \<Rightarrow> bool" where
  "Submit_exchange P s r method =
     (let (rawQuery, r1) = Submit_query P r in
      case Submit_header s r1 of
        Inl e \<Rightarrow> False
      | Inr (s2, r2) \<Rightarrow>
          (case Submit_assemble P s2 r2 method rawQuery (Submit_data P s2 r2) of
             Inl err \<Rightarrow> False
           | Inr (req, transport) \<Rightarrow> body_read P (Send_client r2 transport) req))"

text \<open>
  The string a member value is stored as, the pairs \<^verbatim>\<open>json.Unmarshal\<close> leaves in the
  map for a JSON value (none when it rejects the value), and the error of a call of
  \<^verbatim>\<open>JSON\<close>.
\<close>

fun string_of :: "json \<Rightarrow> string" where
  "string_of (JString s) = s"
| "string_of _ = ''''"

definition decoded :: "json \<Rightarrow> (string \<times> string) list" where
  "decoded v = (case decode_map v of None \<Rightarrow> [] | Some m \<Rightarrow> m)"

definition JSON_error :: "store \<times> Request \<times> error option \<Rightarrow> error option" where
  "JSON_error res = snd (snd res)"

subsection \<open>A test bench\<close>

text \<open>
  The package's tests run against a local server (\<^verbatim>\<open>handleFunc\<close> in the test file).
  The bench below stands in for the platform on the texts that the examples use: the
  tables give, for each of these texts, what the Go library returns for it, and an error
  for any other text.
\<close>

definition bench_Parse :: "string \<Rightarrow> lib_error + url_URL" where
  "bench_Parse s =
     (if s = ''https://127.0.0.1:8443/?test=true'' then
        Inr \<lparr>Scheme = ''https'', Host = ''127.0.0.1:8443'', Path = ''/'', RawQuery = ''test=true''\<rparr>
      else if s = ''https://127.0.0.1:8443/'' then
        Inr \<lparr>Scheme = ''https'', Host = ''127.0.0.1:8443'', Path = ''/'', RawQuery = ''''\<rparr>
      else if s = ''https://127.0.0.1:8443/name'' then
        Inr \<lparr>Scheme = ''https'', Host = ''127.0.0.1:8443'', Path = ''/name'', RawQuery = ''''\<rparr>
      else if s = ''http://proxy.server:8080'' then
        Inr \<lparr>Scheme = ''http'', Host = ''proxy.server:8080'', Path = '''', RawQuery = ''''\<rparr>
      else if s = ''://localhost/?test=true'' \<or> s = ''://localhost/'' then
        Inl (LibError ''parse: missing protocol scheme'')
      else if s = ''https://127.0.0.1:8443/?test=true#%zz'' then
        Inl (LibError ''parse: invalid URL escape'')
      else Inl (LibError ''parse: not a URL of the bench''))"

definition bench_pairs :: "string \<Rightarrow> (string \<times> string) list" where
  "bench_pairs q = (if q = ''test=true'' then [(''test'', ''true'')] else [])"

definition bench_NewRequest :: "string \<Rightarrow> string \<Rightarrow> string option \<Rightarrow> lib_error + http_Request" where
  "bench_NewRequest method url data =
     (case bench_Parse url of
        Inl err \<Rightarrow> Inl err
      | Inr u \<Rightarrow>
          Inr \<lparr>ReqMethod = method, ReqURL = u, ReqHeader = [], ReqBody = reader_body data\<rparr>)"

definition bench_scan :: "string \<Rightarrow> json option" where
  \<open>bench_scan j =
     (if j = ''{"key":"value"}'' then Some (JObject [(''key'', JString ''value'')])
      else if j = ''{}'' then Some (JObject [])
      else if j = ''null'' then Some JNull
      else None)\<close>

definition bench_string :: "string \<Rightarrow> string" where
  "bench_string s = [CHR 0x22] @ s @ [CHR 0x22]"

text \<open>
  \<^verbatim>\<open>handleFunc\<close> of the test file: \<^verbatim>\<open>/name\<close> is answered with 404 and the text
  \<^verbatim>\<open>404 not found\<close> for GET and POST, the other requests with 200 and \<^verbatim>\<open>SUCCESS\<close> when
  they carry what the test expects.
\<close>

definition ok_response :: "string \<Rightarrow> http_Response" where
  "ok_response body = \<lparr>StatusCode = 200, Status = ''200 OK'', RespBody = Inr body\<rparr>"

definition handleFunc :: "http_Request \<Rightarrow> http_Response" where
  "handleFunc req =
     (if (ReqMethod req = ''GET'' \<or> ReqMethod req = ''POST'') \<and> Path (ReqURL req) = ''/name'' then
        \<lparr>StatusCode = 404, Status = ''404 Not Found'', RespBody = Inr ''404 not found''\<rparr>
      else if ReqMethod req = ''GET'' then
        ok_response
          (if Header_Get (ReqHeader req) ''User-Agent'' = ''TEST - BROWSER'' \<and>
              RawQuery (ReqURL req) = ''key=value&test=true''
           then ''SUCCESS'' else '''')
      else if ReqMethod req = ''POST'' \<or> ReqMethod req = ''PUT'' then
        ok_response (if RawQuery (ReqURL req) = ''test=true'' then ''SUCCESS'' else '''')
      else if ReqMethod req = ''PATCH'' then
        ok_response
          (if Header_Get (ReqHeader req) ''Authorization'' =
                ''Basic '' @ EncodeToString ''username:password''
           then ''SUCCESS'' else '''')
      else if ReqMethod req = ''DELETE'' then ok_response ''SUCCESS''
      else ok_response '''')"

definition bench :: platform where
  "bench =
     \<lparr>url_Parse = bench_Parse, query_pairs = bench_pairs, http_NewRequest = bench_NewRequest,
      json_scan = bench_scan, json_string = bench_string,
      client_Do = (\<lambda>client req. Inr (handleFunc req))\<rparr>"

text \<open>
  The same bench with a server that closes the connection in the middle of the body: the
  response arrives, and reading its body ends in an error.
\<close>

definition cut_response :: http_Response where
  "cut_response =
     \<lparr>StatusCode = 200, Status = ''200 OK'', RespBody = Inl (LibError ''unexpected EOF'')\<rparr>"

definition bench_cut :: platform where
  "bench_cut = bench\<lparr>client_Do := (\<lambda>client req. Inr cut_response)\<rparr>"

text \<open>\<^verbatim>\<open>Request{URL: url, Insecure: true}\<close>, as the tests build it.\<close>

definition new_Request :: "string \<Rightarrow> Request" where
  "new_Request url =
     \<lparr>URL = url, Username = '''', Password = '''', Timeout = 0, Insecure = True,
      Proxy = \<lparr>ProxyURL = '''', ProxyUsername = '''', ProxyPassword = ''''\<rparr>,
      values = None, header = None\<rparr>"

text \<open>A GET request for \<^verbatim>\<open>/name\<close> as \<^verbatim>\<open>http.NewRequest\<close> builds it, and the zero transport.\<close>

definition name_request :: http_Request where
  "name_request =
     \<lparr>ReqMethod = ''GET'',
      ReqURL = \<lparr>Scheme = ''https'', Host = ''127.0.0.1:8443'', Path = ''/name'', RawQuery = ''''\<rparr>,
      ReqHeader = [], ReqBody = None\<rparr>"

definition plain_transport :: http_Transport where
  "plain_transport = \<lparr>TransportProxy = None, TLSClientConfig = None\<rparr>"

definition insecure_transport :: http_Transport where
  "insecure_transport =
     \<lparr>TransportProxy = None, TLSClientConfig = Some \<lparr>InsecureSkipVerify = True\<rparr>\<rparr>"

text \<open>A request with a timeout of one second, and one with a timeout of \<open>2 ^ 58\<close> milliseconds.\<close>

definition in_a_second :: Request where
  "in_a_second = (new_Request ''https://127.0.0.1:8443/'')\<lparr>Timeout := 1000\<rparr>"

definition long_wait :: Request where
  "long_wait = (new_Request ''https://127.0.0.1:8443/'')\<lparr>Timeout := 288230376151711744\<rparr>"

text \<open>
  The content type of a request, and the body reader with which \<^verbatim>\<open>Submit\<close> calls
  \<^verbatim>\<open>r.Request\<close>: the first three steps of \<^verbatim>\<open>Submit\<close>, up to \<^verbatim>\<open>data\<close>.
\<close>

definition content_type :: "store \<Rightarrow> Request \<Rightarrow> string" where
  "content_type s r = HeaderType_Get s (header r) ''Content-Type''"

definition Submit_body :: "platform \<Rightarrow> store \<Rightarrow> Request \<Rightarrow> string option" where
  "Submit_body P s r =
     (let (rawQuery, r1) = Submit_query P r in
      case Submit_header s r1 of
        Inl e \<Rightarrow> None
      | Inr (s2, r2) \<Rightarrow> Submit_data P s2 r2)"

text \<open>
  A request that goes through a proxy with credentials; the request for \<^verbatim>\<open>/\<close> as
  \<^verbatim>\<open>http.NewRequest\<close> builds it; \<^verbatim>\<open>r.Header().Add("Content-Type", "application/json")\<close>
  on a request, starting from the empty store.
\<close>

definition via_proxy :: Request where
  "via_proxy =
     (new_Request ''https://127.0.0.1:8443/'')
       \<lparr>Proxy := \<lparr>ProxyURL = ''http://proxy.server:8080'', ProxyUsername = ''user'',
                  ProxyPassword = ''pass''\<rparr>\<rparr>"

definition root_request :: http_Request where
  "root_request =
     \<lparr>ReqMethod = ''GET'',
      ReqURL = \<lparr>Scheme = ''https'', Host = ''127.0.0.1:8443'', Path = ''/'', RawQuery = ''''\<rparr>,
      ReqHeader = [], ReqBody = None\<rparr>"

definition with_json_type :: "Request \<Rightarrow> store \<times> Request" where
  "with_json_type r =
     (let (s1, r1, h) = Request_Header empty_store r in
      case HeaderType_Add s1 h ''Content-Type'' ''application/json'' of
        Inl e \<Rightarrow> (s1, r1)
      | Inr s2 \<Rightarrow> (s2, r1))"


definition two_values :: Request where
  "two_values =
     Values_Add_to ''key'' ''other''
       (Values_Add_to ''key'' ''value'' (new_Request ''https://127.0.0.1:8443/''))"

text \<open>A request whose URL and whose store both hold the pair \<^verbatim>\<open>test=true\<close>.\<close>

definition test_twice :: Request where
  "test_twice = Values_Add_to ''test'' ''true'' (new_Request ''https://127.0.0.1:8443/?test=true'')"


section \<open>Properties\<close>

subsection \<open>Auxiliary facts\<close>

lemma strings_Index_char:
  "strings_Index s [c] = (if c \<in> set s then int (length (takeWhile (\<lambda>x. x \<noteq> c) s)) else - 1)"
  by (induction s) (auto simp: Let_def)

lemma take_before_mark:
  "CHR ''?'' \<in> set url \<Longrightarrow> take (nat (strings_Index url ''?'')) url = before_mark url"
  by (simp add: strings_Index_char before_mark_def takeWhile_eq_take [symmetric])

lemma mark_found: "(strings_Index url ''?'' \<noteq> - 1) = (CHR ''?'' \<in> set url)"
  by (simp add: strings_Index_char)

lemma no_mark_before_mark: "CHR ''?'' \<notin> set (before_mark url)"
  unfolding before_mark_def by (induction url) auto

lemma cut_URL_has_no_mark: "strings_Index (before_mark url) ''?'' = - 1"
  using no_mark_before_mark [of url] by (simp add: strings_Index_char)

lemma pairs_Values_Add:
  "mset (Values_pairs (Values_Add k v m)) = add_mset (k, v) (mset (Values_pairs m))"
  by (induction m) (auto simp: Values_pairs_def)

lemma Values_pairs_Nil: "Values_pairs [] = []"
  by (simp add: Values_pairs_def)

lemma pairs_fold_Add:
  "mset (Values_pairs (fold (\<lambda>(k, v) m. Values_Add k v m) ps m)) = mset (Values_pairs m) + mset ps"
  by (induction ps arbitrary: m) (auto simp: pairs_Values_Add)

lemma pairs_URL_Query: "mset (Values_pairs (URL_Query P u)) = mset (query_pairs P (RawQuery u))"
  by (simp add: URL_Query_def pairs_fold_Add Values_pairs_Nil)

lemma Values_Add_to_eq:
  "Values_Add_to k v r = r\<lparr>values := Some (Values_Add k v (case values r of None \<Rightarrow> [] | Some m \<Rightarrow> m))\<rparr>"
  by (simp add: Values_Add_to_def Request_Values_def split: option.splits)

lemma pairs_Values_Add_to:
  "mset (store_pairs (values (Values_Add_to k v r))) = add_mset (k, v) (mset (store_pairs (values r)))"
  by (simp add: Values_Add_to_eq store_pairs_def pairs_Values_Add Values_pairs_Nil split: option.splits)

lemma frame_Values_Add_to: "\<exists>vo. Values_Add_to k v r = r\<lparr>values := vo\<rparr>"
  by (auto simp: Values_Add_to_eq)

lemma pairs_inner:
  "mset (store_pairs (values (fold (\<lambda>v2 r. Values_Add_to k v2 r) v1 r)))
     = mset (store_pairs (values r)) + mset (map (Pair k) v1)"
  by (induction v1 arbitrary: r) (auto simp: pairs_Values_Add_to)

lemma frame_inner: "\<exists>vo. fold (\<lambda>v2 r. Values_Add_to k v2 r) v1 r = r\<lparr>values := vo\<rparr>"
proof (induction v1 arbitrary: r)
  case Nil
  have "r = r\<lparr>values := values r\<rparr>" by simp
  then show ?case by (metis fold_simps(1))
next
  case (Cons a v1)
  obtain vo where a: "Values_Add_to k a r = r\<lparr>values := vo\<rparr>" using frame_Values_Add_to by blast
  obtain vo' where "fold (\<lambda>v2 r. Values_Add_to k v2 r) v1 (r\<lparr>values := vo\<rparr>) = r\<lparr>values := vo, values := vo'\<rparr>"
    using Cons.IH by blast
  then show ?case using a by auto
qed

lemma pairs_add_all:
  "mset (store_pairs (values (add_all q r))) = mset (store_pairs (values r)) + mset (Values_pairs q)"
  unfolding add_all_def
  by (induction q arbitrary: r) (auto simp: pairs_inner Values_pairs_def)

lemma frame_add_all: "\<exists>vo. add_all q r = r\<lparr>values := vo\<rparr>"
  unfolding add_all_def
proof (induction q arbitrary: r)
  case Nil
  have "r = r\<lparr>values := values r\<rparr>" by simp
  then show ?case by (metis fold_simps(1))
next
  case (Cons a q)
  obtain k v1 where kv: "a = (k, v1)" by (cases a)
  obtain vo where a: "fold (\<lambda>v2 r. Values_Add_to k v2 r) v1 r = r\<lparr>values := vo\<rparr>" using frame_inner by blast
  obtain vo' where "fold (\<lambda>(k, v1) r. fold (\<lambda>v2 r. Values_Add_to k v2 r) v1 r) q (r\<lparr>values := vo\<rparr>) = r\<lparr>values := vo, values := vo'\<rparr>"
    using Cons.IH by blast
  then show ?case using a kv by auto
qed

text \<open>\<^verbatim>\<open>r.Header()\<close> never returns nil, so the write of \<^verbatim>\<open>Submit\<close> to the header cannot panic.\<close>

lemma Submit_header_total: "\<exists>s' r'. Submit_header s r = Inr (s', r')"
  by (auto simp: Submit_header_def Request_Header_def make_HeaderType_def HeaderType_Add_def Let_def
      split: option.splits)

lemma map_of_update_same: "map_of (AList.update k v al) k = Some v"
  by (simp add: update_conv')

subsection \<open>HeaderType\<close>

lemma HeaderType_Get_Add_same:
  "HeaderType_Add s (Some a) k v = Inr s' \<Longrightarrow> HeaderType_Get s' (Some a) k = v"
  by (auto simp: HeaderType_Add_def HeaderType_Get_def update_conv')

text \<open>\<^verbatim>\<open>Clear()\<close> changes no entry of any map that exists when it is called.\<close>

lemma Clear_keeps_every_entry:
  "a < fresh s \<Longrightarrow>
     HeaderType_Get (HeaderType_Clear s (Some a)) (Some a) k = HeaderType_Get s (Some a) k"
  by (simp add: HeaderType_Clear_def make_HeaderType_def HeaderType_Get_def)

text \<open>
  C3. After \<^verbatim>\<open>Clear()\<close> the store should be empty, \<^verbatim>\<open>Get(name)\<close> returning the empty
  string for every name. The code does not do that: on a map holding
  \<^verbatim>\<open>User-Agent: TEST - BROWSER\<close> (the header of the package's tests), \<^verbatim>\<open>Clear()\<close>
  leaves the entry where it was, and \<^verbatim>\<open>Get("User-Agent")\<close> still returns the value.
\<close>

theorem Clear_leaves_entry:
  "(case make_HeaderType empty_store of (s1, h) \<Rightarrow>
      (case HeaderType_Add s1 h ''User-Agent'' ''TEST - BROWSER'' of
         Inl e \<Rightarrow> False
       | Inr s2 \<Rightarrow>
           HeaderType_Get (HeaderType_Clear s2 h) h ''User-Agent'' = ''TEST - BROWSER''))"
  by (simp add: make_HeaderType_def empty_store_def HeaderType_Add_def HeaderType_Clear_def
      HeaderType_Get_def)

subsection \<open>Send: the classification of the response\<close>

text \<open>
  C1. When the exchange completes and the body is read to the end, \<^verbatim>\<open>Send\<close> returns the
  bytes read and the response, both non-nil, with a nil error exactly when the status code
  lies in 200..299, and otherwise with a \<^verbatim>\<open>ResponseStatus\<close> error that carries the status
  code and the status line.
\<close>

theorem Send_classifies:
  assumes "client_Do P (Send_client r transport) req = Inr res"
    and "RespBody res = Inr buf"
  shows "Request_Send P r req transport =
           (Some buf, Some res,
            if 200 \<le> StatusCode res \<and> StatusCode res \<le> 299 then None
            else Some (StatusError \<lparr>Code = StatusCode res, Message = Status res\<rparr>))"
  using assms by (simp add: Request_Send_def)

theorem Send_classifies_witness:
  "client_Do bench (Send_client (new_Request ''https://127.0.0.1:8443/name'') plain_transport)
       name_request = Inr (handleFunc name_request)
   \<and> RespBody (handleFunc name_request) = Inr ''404 not found''
   \<and> Request_Send bench (new_Request ''https://127.0.0.1:8443/name'') name_request plain_transport =
       (Some ''404 not found'', Some (handleFunc name_request),
        Some (StatusError \<lparr>Code = 404, Message = ''404 Not Found''\<rparr>))"
proof -
  have do: "client_Do bench (Send_client (new_Request ''https://127.0.0.1:8443/name'') plain_transport)
       name_request = Inr (handleFunc name_request)"
    by (simp add: bench_def)
  have body: "RespBody (handleFunc name_request) = Inr ''404 not found''"
    by (simp add: handleFunc_def name_request_def)
  have code: "StatusCode (handleFunc name_request) = 404"
    "Status (handleFunc name_request) = ''404 Not Found''"
    by (simp_all add: handleFunc_def name_request_def)
  from Send_classifies [OF do body] code do body show ?thesis by simp
qed

subsection \<open>The verbs: when the response is returned\<close>

lemma Send_metadata:
  "(metadata (Request_Send P r req transport) \<noteq> None) = body_read P (Send_client r transport) req"
  by (simp add: Request_Send_def body_read_def metadata_def split: sum.splits)

lemma Get_metadata: "(metadata (snd (Request_Get P s r)) \<noteq> None) = Get_exchange P s r"
proof (cases "Get_assemble P s (Get_merge P r)")
  case (Inl err)
  then show ?thesis by (simp add: Request_Get_def Get_exchange_def metadata_def Let_def)
next
  case (Inr p)
  then show ?thesis
    using Send_metadata [of P "Get_merge P r" "fst p" "snd p"]
    by (cases p) (simp add: Request_Get_def Get_exchange_def Let_def)
qed

lemma Submit_metadata:
  "(metadata (snd (snd (Request_Submit P s r method))) \<noteq> None) = Submit_exchange P s r method"
proof -
  obtain q r1 where q: "Submit_query P r = (q, r1)" by (cases "Submit_query P r")
  obtain s2 r2 where h: "Submit_header s r1 = Inr (s2, r2)" using Submit_header_total by blast
  show ?thesis
  proof (cases "Submit_assemble P s2 r2 method q (Submit_data P s2 r2)")
    case (Inl err)
    then show ?thesis using q h by (simp add: Request_Submit_def Submit_exchange_def metadata_def)
  next
    case (Inr p)
    then show ?thesis
      using q h Send_metadata [of P r2 "fst p" "snd p"]
      by (cases p) (simp add: Request_Submit_def Submit_exchange_def)
  qed
qed

text \<open>
  C2, as the claim states it, fails: the claim has the response metadata nil only when no
  response was received. On the bench whose server cuts the body short, \<^verbatim>\<open>Get\<close>
  assembles its request, \<^verbatim>\<open>client.Do\<close> returns a response, reading the body fails, and
  \<^verbatim>\<open>Get\<close> returns nil for the response next to the read error.
\<close>

theorem metadata_nil_after_response:
  "Get_assemble bench_cut empty_store
       (Get_merge bench_cut (new_Request ''https://127.0.0.1:8443/name''))
     = Inr (name_request, insecure_transport)
   \<and> client_Do bench_cut
         (Send_client (new_Request ''https://127.0.0.1:8443/name'') insecure_transport)
         name_request = Inr cut_response
   \<and> snd (Request_Get bench_cut empty_store (new_Request ''https://127.0.0.1:8443/name''))
       = (None, None, Some (LibraryError (LibError ''unexpected EOF'')))"
  by (simp add: bench_cut_def bench_def Request_Get_def Get_merge_def Get_assemble_def
      Request_Request_def new_Request_def bench_NewRequest_def reader_body_def bench_Parse_def header_entries_def
      Request_Transport_def Transport_tls_def Request_Send_def cut_response_def name_request_def
      insecure_transport_def)

text \<open>
  C2, amended. For every verb, the response metadata is non-nil exactly when a response
  was received and its body was read to the end. It is nil when the call failed before
  that: the request could not be built, the proxy URL did not parse, the exchange failed,
  or the body of a received response could not be read in full.
\<close>

theorem metadata_present:
  "(metadata (snd (Request_Get P s r)) \<noteq> None) = Get_exchange P s r
   \<and> (metadata (snd (snd (Request_Submit P s r method))) \<noteq> None) = Submit_exchange P s r method
   \<and> (metadata (snd (snd (Request_Post P s r))) \<noteq> None) = Submit_exchange P s r ''POST''
   \<and> (metadata (snd (snd (Request_Put P s r))) \<noteq> None) = Submit_exchange P s r ''PUT''
   \<and> (metadata (snd (snd (Request_Patch P s r))) \<noteq> None) = Submit_exchange P s r ''PATCH''
   \<and> (metadata (snd (snd (Request_Delete P s r))) \<noteq> None) = Submit_exchange P s r ''DELETE''"
  by (simp only: Get_metadata Submit_metadata Request_Post_def Request_Put_def Request_Patch_def
      Request_Delete_def simp_thms)

theorem metadata_present_witness:
  "Get_exchange bench empty_store (new_Request ''https://127.0.0.1:8443/name'')
   \<and> metadata (snd (Request_Get bench empty_store (new_Request ''https://127.0.0.1:8443/name'')))
        \<noteq> None
   \<and> \<not> Get_exchange bench_cut empty_store (new_Request ''https://127.0.0.1:8443/name'')
   \<and> metadata (snd (Request_Get bench_cut empty_store (new_Request ''https://127.0.0.1:8443/name'')))
        = None"
proof -
  have a: "Get_exchange bench empty_store (new_Request ''https://127.0.0.1:8443/name'')"
    by (simp add: Get_exchange_def bench_def Get_merge_def Get_assemble_def
        Request_Request_def new_Request_def bench_NewRequest_def reader_body_def bench_Parse_def header_entries_def
        Request_Transport_def body_read_def handleFunc_def)
  have b: "\<not> Get_exchange bench_cut empty_store (new_Request ''https://127.0.0.1:8443/name'')"
    by (simp add: Get_exchange_def bench_cut_def bench_def Get_merge_def Get_assemble_def
        Request_Request_def new_Request_def bench_NewRequest_def reader_body_def bench_Parse_def header_entries_def
        Request_Transport_def body_read_def cut_response_def)
  from a b
    metadata_present [of bench empty_store "new_Request ''https://127.0.0.1:8443/name''" "''GET''"]
    metadata_present [of bench_cut empty_store "new_Request ''https://127.0.0.1:8443/name''" "''GET''"]
  show ?thesis by simp
qed

subsection \<open>Send: the timeout of the client\<close>

text \<open>
  C9, as the claim states it, fails for a large timeout: the product with
  \<^verbatim>\<open>time.Millisecond\<close> is taken in 64 bits, and for \<open>2 ^ 58\<close> milliseconds it wraps
  around to zero, which \<^verbatim>\<open>http.Client\<close> reads as no timeout at all.
\<close>

theorem timeout_wraps:
  "0 < sint (Timeout long_wait) \<and> ClientTimeout (Send_client long_wait plain_transport) = 0"
  by (simp add: long_wait_def Send_client_def)

lemma sint_million: "sint (1000000 :: 64 word) = 1000000"
  by simp

lemma millis_no_wrap:
  fixes t :: "64 word"
  assumes "0 < sint t" and "sint t \<le> 9223372036854"
  shows "sint (t * 1000000) = sint t * 1000000"
proof -
  have lo: "- (2 ^ 63) \<le> sint t * 1000000" using assms by simp
  have "sint t * 1000000 \<le> 9223372036854 * 1000000" using assms by simp
  then have hi: "sint t * 1000000 < 2 ^ 63" by simp
  have "sint (t * 1000000) = signed_take_bit 63 (sint t * sint (1000000 :: 64 word))"
    by (simp add: sint_word_mult)
  also have "\<dots> = signed_take_bit 63 (sint t * 1000000)" by (simp only: sint_million)
  also have "\<dots> = sint t * 1000000" using lo hi by (rule signed_take_bit_int_eq_self)
  finally show ?thesis .
qed

text \<open>
  C9, amended. The timeout of the client, in nanoseconds, is \<^verbatim>\<open>Timeout\<close> milliseconds when
  \<^verbatim>\<open>Timeout\<close> is positive and at most 9223372036854 (the largest number of milliseconds
  that a 64-bit duration holds), and exactly 10 milliseconds when \<^verbatim>\<open>Timeout\<close> is zero or
  negative.
\<close>

theorem Send_client_timeout:
  "(0 < sint (Timeout r) \<and> sint (Timeout r) \<le> 9223372036854 \<longrightarrow>
      sint (ClientTimeout (Send_client r transport)) = sint (Timeout r) * 1000000)
   \<and> (sint (Timeout r) \<le> 0 \<longrightarrow> sint (ClientTimeout (Send_client r transport)) = 10 * 1000000)"
  by (simp add: Send_client_def millis_no_wrap)

theorem Send_client_timeout_witness:
  "0 < sint (Timeout in_a_second) \<and> sint (Timeout in_a_second) \<le> 9223372036854
   \<and> sint (ClientTimeout (Send_client in_a_second plain_transport)) = 1000 * 1000000
   \<and> sint (Timeout (new_Request ''https://127.0.0.1:8443/'')) \<le> 0
   \<and> sint (ClientTimeout (Send_client (new_Request ''https://127.0.0.1:8443/'') plain_transport))
        = 10 * 1000000"
proof -
  have a: "sint (Timeout in_a_second) = 1000" by (simp add: in_a_second_def)
  have b: "sint (Timeout (new_Request ''https://127.0.0.1:8443/'')) = 0" by (simp add: new_Request_def)
  from a b Send_client_timeout [of in_a_second plain_transport]
    Send_client_timeout [of "new_Request ''https://127.0.0.1:8443/''" plain_transport]
  show ?thesis by simp
qed

subsection \<open>Get and Submit: a URL with a query that does not parse\<close>

lemma Submit_header_frame:
  assumes "Submit_header s r = Inr (s2, r2)"
  shows "\<exists>h. r2 = r\<lparr>header := h\<rparr>"
proof (cases "header r")
  case None
  then show ?thesis
    using assms
    by (auto simp: Submit_header_def Request_Header_def make_HeaderType_def HeaderType_Add_def)
next
  case (Some a)
  have "r = r\<lparr>header := header r\<rparr>" by simp
  moreover have "r2 = r"
    using assms Some
    by (auto simp: Submit_header_def Request_Header_def HeaderType_Add_def split: if_splits)
  ultimately show ?thesis by metis
qed

lemma Submit_leaves:
  assumes "Submit_query P r = (q, r1)"
  shows "case Request_Submit P s r method of (s', r', res) \<Rightarrow> URL r' = URL r1 \<and> values r' = values r1"
proof -
  obtain s2 r2 where h: "Submit_header s r1 = Inr (s2, r2)" using Submit_header_total by blast
  obtain hd where "r2 = r1\<lparr>header := hd\<rparr>" using Submit_header_frame [OF h] by blast
  then have "URL r2 = URL r1" "values r2 = values r1" by simp_all
  then show ?thesis
    using assms h by (simp add: Request_Submit_def split: sum.splits prod.splits)
qed

text \<open>
  C10. When the URL contains \<^verbatim>\<open>?\<close> and \<^verbatim>\<open>url.Parse\<close> rejects it, the failure is
  swallowed at the first step of \<^verbatim>\<open>Get\<close> and of \<^verbatim>\<open>Submit\<close>: the pairs of the inline
  query are dropped, so the values of the request stay as they were and the raw query that
  \<^verbatim>\<open>Submit\<close> builds is empty; the URL is cut at the \<^verbatim>\<open>?\<close> all the same; and the call
  returns what a call on the request with the cut URL returns, so the error of the parse
  is not raised.
\<close>

theorem unparsable_query_dropped:
  assumes "CHR ''?'' \<in> set (URL r)" and "url_Parse P (URL r) = Inl err"
  shows "Get_merge P r = r\<lparr>URL := before_mark (URL r)\<rparr>
     \<and> Submit_query P r = ('''', r\<lparr>URL := before_mark (URL r)\<rparr>)
     \<and> fst (Request_Get P s r) = r\<lparr>URL := before_mark (URL r)\<rparr>
     \<and> (case Request_Submit P s r method of
           (s', r', res) \<Rightarrow> URL r' = before_mark (URL r) \<and> values r' = values r)
     \<and> Request_Get P s r = Request_Get P s (r\<lparr>URL := before_mark (URL r)\<rparr>)
     \<and> Request_Submit P s r method = Request_Submit P s (r\<lparr>URL := before_mark (URL r)\<rparr>) method"
proof -
  let ?r' = "r\<lparr>URL := before_mark (URL r)\<rparr>"
  have g: "Get_merge P r = ?r'"
    using assms by (simp add: Get_merge_def mark_found take_before_mark)
  have q: "Submit_query P r = ('''', ?r')"
    using assms by (simp add: Submit_query_def mark_found take_before_mark)
  have g': "Get_merge P ?r' = ?r'"
    by (simp add: Get_merge_def cut_URL_has_no_mark)
  have q': "Submit_query P ?r' = ('''', ?r')"
    by (simp add: Submit_query_def cut_URL_has_no_mark)
  have f: "fst (Request_Get P s r) = Get_merge P r"
    by (simp add: Request_Get_def Let_def split: sum.splits prod.splits)
  have eg: "Request_Get P s r = Request_Get P s ?r'"
    by (simp add: Request_Get_def g g')
  have es: "Request_Submit P s r method = Request_Submit P s ?r' method"
    by (simp add: Request_Submit_def q q')
  show ?thesis using g q f eg es Submit_leaves [OF q, of s "method"] by simp
qed

theorem unparsable_query_dropped_witness:
  "CHR ''?'' \<in> set (URL (new_Request ''https://127.0.0.1:8443/?test=true#%zz''))
   \<and> url_Parse bench (URL (new_Request ''https://127.0.0.1:8443/?test=true#%zz''))
        = Inl (LibError ''parse: invalid URL escape'')
   \<and> Get_merge bench (new_Request ''https://127.0.0.1:8443/?test=true#%zz'')
        = new_Request ''https://127.0.0.1:8443/''
   \<and> Submit_query bench (new_Request ''https://127.0.0.1:8443/?test=true#%zz'')
        = ('''', new_Request ''https://127.0.0.1:8443/'')
   \<and> Request_Get bench empty_store (new_Request ''https://127.0.0.1:8443/?test=true#%zz'')
        = (new_Request ''https://127.0.0.1:8443/'', Some '''', Some (ok_response ''''), None)
   \<and> snd (snd (Request_Submit bench empty_store
                  (new_Request ''https://127.0.0.1:8443/?test=true#%zz'') ''POST''))
        = (Some '''', Some (ok_response ''''), None)"
proof -
  let ?r = "new_Request ''https://127.0.0.1:8443/?test=true#%zz''"
  have m: "CHR ''?'' \<in> set (URL ?r)"
    by (simp add: new_Request_def)
  have p: "url_Parse bench (URL ?r) = Inl (LibError ''parse: invalid URL escape'')"
    by (simp add: new_Request_def bench_def bench_Parse_def)
  have t: "?r\<lparr>URL := before_mark (URL ?r)\<rparr> = new_Request ''https://127.0.0.1:8443/''"
    by (simp add: new_Request_def before_mark_def)
  have g: "Request_Get bench empty_store (new_Request ''https://127.0.0.1:8443/'')
        = (new_Request ''https://127.0.0.1:8443/'', Some '''', Some (ok_response ''''), None)"
    by (simp add: Request_Get_def Get_merge_def Get_assemble_def Request_Request_def new_Request_def
        bench_def bench_NewRequest_def reader_body_def bench_Parse_def header_entries_def
        Request_Transport_def Request_Send_def handleFunc_def ok_response_def Header_Get_def
        Values_lookup_def)
  have s: "snd (snd (Request_Submit bench empty_store (new_Request ''https://127.0.0.1:8443/'') ''POST''))
        = (Some '''', Some (ok_response ''''), None)"
    by (simp add: Request_Submit_def Submit_query_def Submit_header_def Request_Header_def
        make_HeaderType_def empty_store_def HeaderType_Add_def Submit_data_def Submit_assemble_def
        Request_Request_def new_Request_def bench_def bench_NewRequest_def reader_body_def
        bench_Parse_def header_entries_def Request_Transport_def Request_Send_def handleFunc_def
        ok_response_def)
  from unparsable_query_dropped [OF m p, of empty_store "''POST''"] m p
  show ?thesis unfolding t by (simp add: g s)
qed

subsection \<open>Transport: the header for the proxy\<close>

lemma canonical_names:
  "CanonicalMIMEHeaderKey ''Proxy-Ahthorization'' = ''Proxy-Ahthorization''"
  "CanonicalMIMEHeaderKey ''Proxy-Authorization'' = ''Proxy-Authorization''"
  by code_simp+

lemma base64_user_pass: "EncodeToString ''user:pass'' = ''dXNlcjpwYXNz''"
  by code_simp

text \<open>No call of \<^verbatim>\<open>Transport\<close> changes what the request holds under \<^verbatim>\<open>Proxy-Authorization\<close>.\<close>

lemma Values_lookup_Add_other:
  "k' \<noteq> k \<Longrightarrow> Values_lookup (Values_Add k v m) k' = Values_lookup m k'"
  by (induction m) (auto simp: Values_lookup_def)

lemma Transport_leaves_Proxy_Authorization:
  assumes "Request_Transport P r req = Inr (req', transport)"
  shows "Header_Get (ReqHeader req') ''Proxy-Authorization''
           = Header_Get (ReqHeader req) ''Proxy-Authorization''"
proof -
  have "ReqHeader req' = ReqHeader req
      \<or> (\<exists>v. ReqHeader req' = Header_Add ''Proxy-Ahthorization'' v (ReqHeader req))"
    using assms by (auto simp: Request_Transport_def Let_def split: sum.splits if_splits)
  then show ?thesis
    by (auto simp: Header_Get_def Header_Add_def canonical_names Values_lookup_Add_other)
qed

text \<open>
  C5. With a proxy URL and both proxy credentials, \<^verbatim>\<open>Transport\<close> should attach the header
  \<^verbatim>\<open>Proxy-Authorization\<close> with the value \<^verbatim>\<open>Basic\<close> and the base64 of
  \<^verbatim>\<open>username:password\<close>. The code attaches that value under the name
  \<^verbatim>\<open>Proxy-Ahthorization\<close>: for the proxy \<^verbatim>\<open>http://proxy.server:8080\<close> with \<^verbatim>\<open>user\<close> and
  \<^verbatim>\<open>pass\<close> this is the only header of the request, and \<^verbatim>\<open>Proxy-Authorization\<close> is not set.
\<close>

theorem proxy_header_misspelled:
  "(case Request_Transport bench via_proxy root_request of
      Inl err \<Rightarrow> False
    | Inr (req, transport) \<Rightarrow>
        ReqHeader req = [(''Proxy-Ahthorization'', [''Basic dXNlcjpwYXNz''])]
        \<and> Header_Get (ReqHeader req) ''Proxy-Authorization'' = '''')"
  by (simp add: Request_Transport_def via_proxy_def new_Request_def bench_def bench_Parse_def
      root_request_def Header_Add_def Header_Get_def canonical_names base64_user_pass
      Values_lookup_def)

subsection \<open>Submit: the body\<close>

lemma Submit_query_values:
  "Submit_query P r = (q, r1) \<Longrightarrow> values r1 = values r \<and> header r1 = header r"
  by (auto simp: Submit_query_def Let_def split: if_splits)

lemma Submit_header_effect:
  assumes "Submit_header s r = Inr (s2, r2)"
  shows "values r2 = values r
     \<and> content_type s2 r2 =
         (if header r = None \<or> content_type s r = '''' then ''application/x-www-form-urlencoded''
          else content_type s r)"
  using assms
  by (auto simp: Submit_header_def content_type_def Request_Header_def make_HeaderType_def
      HeaderType_Add_def HeaderType_Get_def Let_def map_of_update_same
      split: option.splits if_splits)

lemma json_type_form: "\<not> json_type ''application/x-www-form-urlencoded''" "\<not> json_type ''''"
  by (simp_all add: json_type_def)

lemma Submit_body_eq:
  "Submit_body P s r =
     (case values r of
        None \<Rightarrow> None
      | Some m \<Rightarrow>
          if json_type (content_type s r)
          then Some (json_text (json_string P) (json_of_Values m))
          else Some (Values_Encode m))"
proof -
  obtain q r1 where q: "Submit_query P r = (q, r1)" by (cases "Submit_query P r")
  obtain s2 r2 where h: "Submit_header s r1 = Inr (s2, r2)" using Submit_header_total by blast
  have r1: "values r1 = values r" "content_type s r1 = content_type s r" "header r1 = header r"
    using Submit_query_values [OF q] by (simp_all add: content_type_def)
  have v: "values r2 = values r" using Submit_header_effect [OF h] r1 by simp
  have "json_type (content_type s2 r2) = json_type (content_type s r)"
    using Submit_header_effect [OF h] r1 json_type_form
    by (auto simp: content_type_def HeaderType_Get_def)
  then show ?thesis
    using q h v
    by (simp add: Submit_body_def Submit_data_def json_Marshal_def content_type_def json_type_def
        split: option.splits)
qed

text \<open>\<open>Submit_body\<close> is the body with which \<^verbatim>\<open>Submit\<close> assembles its request.\<close>

lemma Submit_with_body:
  "Request_Submit P s r method =
     (let (rawQuery, r1) = Submit_query P r in
      case Submit_header s r1 of
        Inl e \<Rightarrow> (s, r1, None, None, Some e)
      | Inr (s2, r2) \<Rightarrow>
          (case Submit_assemble P s2 r2 method rawQuery (Submit_body P s r) of
             Inl err \<Rightarrow> (s2, r2, None, None, Some (LibraryError err))
           | Inr (req, transport) \<Rightarrow> (s2, r2, Request_Send P r2 req transport)))"
  by (simp add: Request_Submit_def Submit_body_def split: prod.splits sum.splits)

lemma two_values_state:
  "with_json_type two_values =
     (\<lparr>cells = (\<lambda>_. [])(0 := [(''Content-Type'', ''application/json'')]), fresh = Suc 0\<rparr>,
      (new_Request ''https://127.0.0.1:8443/'')
        \<lparr>values := Some [(''key'', [''value'', ''other''])], header := Some 0\<rparr>)"
  by (simp add: with_json_type_def two_values_def Values_Add_to_eq new_Request_def
      Request_Header_def make_HeaderType_def empty_store_def HeaderType_Add_def)


text \<open>
  C4, as the claim states it, fails: the claim has the JSON body carry one string per key,
  a key with several values collapsed to one. With the content type
  \<^verbatim>\<open>application/json\<close> and the values \<^verbatim>\<open>value\<close> and \<^verbatim>\<open>other\<close> added under \<^verbatim>\<open>key\<close>, the
  body that \<^verbatim>\<open>Submit\<close> builds holds an array with both values.
\<close>

theorem json_body_keeps_all_values:
  \<open>(case with_json_type two_values of (s, r) \<Rightarrow>
      content_type s r = ''application/json''
      \<and> values r = Some [(''key'', [''value'', ''other''])]
      \<and> Submit_body bench s r = Some ''{"key":["value","other"]}''
      \<and> json_of_Values [(''key'', [''value'', ''other''])]
            = JObject [(''key'', JArray [JString ''value'', JString ''other''])]
      \<and> \<not> flat_string_object (json_of_Values [(''key'', [''value'', ''other''])]))\<close>
  by (simp add: two_values_state Submit_body_eq content_type_def HeaderType_Get_def new_Request_def
      json_type_def json_of_Values_def Values_lookup_def bench_def bench_string_def)

text \<open>\<^verbatim>\<open>Values.Add\<close> keeps one entry per key and leaves no key without a value.\<close>

lemma Values_Add_key_set: "fst ` set (Values_Add k v m) = insert k (fst ` set m)"
  by (induction k v m rule: Values_Add.induct) auto

lemma Values_Add_keys: "distinct (map fst m) \<Longrightarrow> distinct (map fst (Values_Add k v m))"
  by (induction k v m rule: Values_Add.induct) (auto simp: Values_Add_key_set)

lemma Values_Add_nonempty: "[] \<notin> snd ` set m \<Longrightarrow> [] \<notin> snd ` set (Values_Add k v m)"
  by (induction k v m rule: Values_Add.induct) (auto simp: image_iff)

text \<open>
  C4, amended. For a submission whose content type is \<^verbatim>\<open>application/json\<close>,
  \<^verbatim>\<open>text/json\<close> or \<^verbatim>\<open>text/x-json\<close> and whose store exists, with one entry per key and
  each key holding at least one value, the body is the JSON text of an object with one member per key, the keys in
  sorted order, the value of a key being the array of all its strings in their order.
\<close>

theorem Submit_body_json:
  assumes "values r = Some m" and "json_type (content_type s r)"
    and "distinct (map fst m)" and "[] \<notin> snd ` set m"
  shows "Submit_body P s r =
     Some (json_text (json_string P)
       (JObject (map (\<lambda>k. (k, JArray (map JString (Values_lookup m k)))) (sort (map fst m)))))"
  using assms by (simp add: Submit_body_eq json_of_Values_def)

theorem Submit_body_json_witness:
  \<open>values (snd (with_json_type two_values)) = Some [(''key'', [''value'', ''other''])]
   \<and> json_type (content_type (fst (with_json_type two_values)) (snd (with_json_type two_values)))
   \<and> distinct (map fst [(''key'', [''value'', ''other''])])
   \<and> [] \<notin> snd ` set [(''key'', [''value'', ''other''])]
   \<and> Submit_body bench (fst (with_json_type two_values)) (snd (with_json_type two_values))
        = Some ''{"key":["value","other"]}''\<close>
proof -
  have v: "values (snd (with_json_type two_values)) = Some [(''key'', [''value'', ''other''])]"
    by (simp add: two_values_state new_Request_def)
  have t: "json_type (content_type (fst (with_json_type two_values)) (snd (with_json_type two_values)))"
    by (simp add: two_values_state new_Request_def content_type_def HeaderType_Get_def json_type_def)
  have d: "distinct (map fst [(''key'', [''value'', ''other''])])"
    by simp
  have n: "[] \<notin> snd ` set [(''key'', [''value'', ''other''])]"
    by simp
  from Submit_body_json [OF v t d n, of bench] v t d n show ?thesis
    by (simp add: Values_lookup_def bench_def bench_string_def)
qed


text \<open>
  The reader that \<^verbatim>\<open>Submit\<close> passes on when the store holds nothing: none when the store
  was never created; otherwise one over the text \<^verbatim>\<open>{}\<close> under a JSON content type and
  over the empty text under any other.
\<close>

lemma Submit_body_without_pairs:
  "(values r = None \<longrightarrow> Submit_body P s r = None)
   \<and> (values r = Some [] \<longrightarrow>
        Submit_body P s r = Some (if json_type (content_type s r) then ''{}'' else ''''))"
  by (simp add: Submit_body_eq json_of_Values_def Values_Encode_def)









subsection \<open>Get: the query of the URL\<close>

lemma fold_header_URL:
  "ReqURL (fold (\<lambda>(k, v) q. q\<lparr>ReqHeader := Header_Set k v (ReqHeader q)\<rparr>) es req) = ReqURL req"
  by (induction es arbitrary: req) auto

lemma Request_Request_URL:
  assumes "Request_Request P s r method username password data = Inr req"
  shows "\<exists>req0. http_NewRequest P method (URL r) data = Inr req0 \<and> ReqURL req = ReqURL req0"
  using assms
  by (auto simp: Request_Request_def Let_def SetBasicAuth_def fold_header_URL split: sum.splits if_splits)

lemma Request_Transport_URL:
  assumes "Request_Transport P r req = Inr (req', transport)"
  shows "ReqURL req' = ReqURL req"
  using assms
  by (auto simp: Request_Transport_def Let_def split: sum.splits if_splits)

lemma Get_merge_parsed:
  assumes "CHR ''?'' \<in> set (URL r)" and "url_Parse P (URL r) = Inr u"
  shows "\<exists>vo. Get_merge P r = r\<lparr>values := vo, URL := before_mark (URL r)\<rparr>
           \<and> mset (store_pairs vo) = mset (store_pairs (values r)) + mset (query_pairs P (RawQuery u))"
proof -
  obtain vo where vo: "add_all (URL_Query P u) r = r\<lparr>values := vo\<rparr>"
    using frame_add_all by blast
  have "mset (store_pairs (values (add_all (URL_Query P u) r)))
          = mset (store_pairs (values r)) + mset (query_pairs P (RawQuery u))"
    by (simp add: pairs_add_all pairs_URL_Query)
  then have p: "mset (store_pairs vo) = mset (store_pairs (values r)) + mset (query_pairs P (RawQuery u))"
    using vo by simp
  have "Get_merge P r = r\<lparr>values := vo, URL := before_mark (URL r)\<rparr>"
    using assms vo by (simp add: Get_merge_def mark_found take_before_mark Let_def)
  then show ?thesis using p by blast
qed

lemma Get_assemble_query:
  assumes "Get_assemble P s r = Inr (req, transport)"
    and "no_mark_no_query P" and "CHR ''?'' \<notin> set (URL r)"
  shows "RawQuery (ReqURL req) = store_Encode (values r)"
proof -
  obtain req1 where r1: "Request_Request P s r ''GET'' (Username r) (Password r) None = Inr req1"
    using assms(1) by (auto simp: Get_assemble_def split: sum.splits)
  obtain req0 where r0: "http_NewRequest P ''GET'' (URL r) None = Inr req0" "ReqURL req1 = ReqURL req0"
    using Request_Request_URL [OF r1] by blast
  have q0: "RawQuery (ReqURL req0) = ''''"
    using assms(2,3) r0(1) unfolding no_mark_no_query_def by blast
  show ?thesis
  proof (cases "values r")
    case None
    then have "Request_Transport P r req1 = Inr (req, transport)"
      using assms(1) r1 by (simp add: Get_assemble_def)
    then show ?thesis using Request_Transport_URL r0 q0 None by (simp add: store_Encode_def)
  next
    case (Some m)
    then have "Request_Transport P r (req1\<lparr>ReqURL := (ReqURL req1)\<lparr>RawQuery := Values_Encode m\<rparr>\<rparr>)
                 = Inr (req, transport)"
      using assms(1) r1 by (simp add: Get_assemble_def)
    then have "ReqURL req = (ReqURL req1)\<lparr>RawQuery := Values_Encode m\<rparr>"
      using Request_Transport_URL by fastforce
    then show ?thesis using Some by (simp add: store_Encode_def)
  qed
qed

text \<open>
  C7, amended. For every GET call whose URL contains a \<^verbatim>\<open>?\<close> and parses as a URL: every
  pair of the inline query is added to the store, which keeps the pairs it had (pairs are
  counted, so a pair given twice is held twice); the URL is cut to the part before the
  \<^verbatim>\<open>?\<close>; and the raw query of the request that is assembled is the URL-encoded form of
  the store.
\<close>

theorem Get_merges_query:
  assumes "CHR ''?'' \<in> set (URL r)" and "url_Parse P (URL r) = Inr u" and "no_mark_no_query P"
  shows "mset (store_pairs (values (Get_merge P r)))
           = mset (store_pairs (values r)) + mset (query_pairs P (RawQuery u))
     \<and> URL (Get_merge P r) = before_mark (URL r)
     \<and> (\<forall>req transport. Get_assemble P s (Get_merge P r) = Inr (req, transport)
           \<longrightarrow> RawQuery (ReqURL req) = store_Encode (values (Get_merge P r)))"
proof -
  obtain vo where vo: "Get_merge P r = r\<lparr>values := vo, URL := before_mark (URL r)\<rparr>"
    "mset (store_pairs vo) = mset (store_pairs (values r)) + mset (query_pairs P (RawQuery u))"
    using Get_merge_parsed [OF assms(1,2)] by blast
  have u: "URL (Get_merge P r) = before_mark (URL r)" using vo(1) by simp
  have "CHR ''?'' \<notin> set (URL (Get_merge P r))" using u no_mark_before_mark by simp
  then have "\<forall>req transport. Get_assemble P s (Get_merge P r) = Inr (req, transport)
           \<longrightarrow> RawQuery (ReqURL req) = store_Encode (values (Get_merge P r))"
    using Get_assemble_query assms(3) by blast
  then show ?thesis using vo u by simp
qed

lemma bench_no_mark_no_query: "no_mark_no_query bench"
  unfolding no_mark_no_query_def
  by (auto simp: bench_def bench_NewRequest_def reader_body_def bench_Parse_def split: sum.splits if_splits)

text \<open>
  C7, as the claim states it, fails for a URL that \<^verbatim>\<open>url.Parse\<close> rejects: the claim
  has every pair of the inline query added to the store for every URL with a \<^verbatim>\<open>?\<close>. For
  \<^verbatim>\<open>://localhost/?test=true\<close> (no scheme, as in the package's tests) the inline query
  holds the pair \<^verbatim>\<open>test=true\<close>, the store stays without any pair, and \<^verbatim>\<open>Get\<close> returns
  the error of the request's construction.
\<close>

theorem unparsed_query_not_merged:
  "CHR ''?'' \<in> set (URL (new_Request ''://localhost/?test=true''))
   \<and> query_pairs bench ''test=true'' = [(''test'', ''true'')]
   \<and> store_pairs (values (Get_merge bench (new_Request ''://localhost/?test=true''))) = []
   \<and> snd (Request_Get bench empty_store (new_Request ''://localhost/?test=true''))
        = (None, None, Some (LibraryError (LibError ''parse: missing protocol scheme'')))"
  by (simp add: new_Request_def bench_def bench_pairs_def Get_merge_def bench_Parse_def
      store_pairs_def Request_Get_def Get_assemble_def Request_Request_def bench_NewRequest_def reader_body_def)

theorem Get_merges_query_witness:
  "CHR ''?'' \<in> set (URL test_twice)
   \<and> url_Parse bench (URL test_twice)
        = Inr \<lparr>Scheme = ''https'', Host = ''127.0.0.1:8443'', Path = ''/'', RawQuery = ''test=true''\<rparr>
   \<and> no_mark_no_query bench
   \<and> mset (store_pairs (values (Get_merge bench test_twice)))
        = {#(''test'', ''true''), (''test'', ''true'')#}
   \<and> URL (Get_merge bench test_twice) = ''https://127.0.0.1:8443/''
   \<and> (case Get_assemble bench empty_store (Get_merge bench test_twice) of
         Inl err \<Rightarrow> False
       | Inr (req, transport) \<Rightarrow> RawQuery (ReqURL req) = ''test=true&test=true'')"
proof -
  have m: "CHR ''?'' \<in> set (URL test_twice)"
    by (simp add: test_twice_def Values_Add_to_eq new_Request_def)
  have p: "url_Parse bench (URL test_twice)
        = Inr \<lparr>Scheme = ''https'', Host = ''127.0.0.1:8443'', Path = ''/'', RawQuery = ''test=true''\<rparr>"
    by (simp add: test_twice_def Values_Add_to_eq new_Request_def bench_def bench_Parse_def)
  have g: "Get_merge bench test_twice =
             (new_Request ''https://127.0.0.1:8443/'')\<lparr>values := Some [(''test'', [''true'', ''true''])]\<rparr>"
    by (simp add: Get_merge_def test_twice_def Values_Add_to_eq new_Request_def bench_def
        bench_Parse_def URL_Query_def bench_pairs_def add_all_def)
  have e: "store_Encode (Some [(''test'', [''true'', ''true''])]) = ''test=true&test=true''"
    by code_simp
  have a: "\<exists>req transport. Get_assemble bench empty_store (Get_merge bench test_twice) = Inr (req, transport)"
    unfolding g
    by (simp add: Get_assemble_def Request_Request_def new_Request_def bench_def bench_NewRequest_def reader_body_def
        bench_Parse_def header_entries_def Request_Transport_def)
  have v: "values (Get_merge bench test_twice) = Some [(''test'', [''true'', ''true''])]"
    "URL test_twice = ''https://127.0.0.1:8443/?test=true''"
    unfolding g by (simp_all add: new_Request_def test_twice_def Values_Add_to_eq)
  have b: "before_mark ''https://127.0.0.1:8443/?test=true'' = ''https://127.0.0.1:8443/''"
    by (simp add: before_mark_def)
  have s: "mset (store_pairs (Some [(''test'', [''true'', ''true''])]))
             = {#(''test'', ''true''), (''test'', ''true'')#}"
    by (simp add: store_pairs_def Values_pairs_def)
  from Get_merges_query [OF m p bench_no_mark_no_query, of empty_store] a
  have "(case Get_assemble bench empty_store (Get_merge bench test_twice) of
         Inl err \<Rightarrow> False
       | Inr (req, transport) \<Rightarrow> RawQuery (ReqURL req) = ''test=true&test=true'')"
    unfolding v e by auto
  moreover from Get_merges_query [OF m p bench_no_mark_no_query, of empty_store]
  have "URL (Get_merge bench test_twice) = ''https://127.0.0.1:8443/''"
    unfolding v b by simp
  moreover have "mset (store_pairs (values (Get_merge bench test_twice)))
        = {#(''test'', ''true''), (''test'', ''true'')#}"
    unfolding v s by simp
  ultimately show ?thesis using m p bench_no_mark_no_query by simp
qed

subsection \<open>JSON\<close>

lemma decode_string_Some: "(decode_string x = None) = (\<not> string_or_null x)"
  by (cases x) auto

lemma decode_string_None: "\<not> string_or_null x \<Longrightarrow> decode_string x = None"
  by (cases x) auto

lemma decode_string_value: "decode_string x = Some v \<Longrightarrow> v = string_of x"
  by (cases x) auto

lemma decode_members_None:
  "(decode_members ms acc = None) = (\<not> list_all (\<lambda>m. string_or_null (snd m)) ms)"
  by (induction ms acc rule: decode_members.induct)
     (auto simp: decode_string_Some dest: decode_string_None split: option.splits)

lemma decode_map_None: "(decode_map v = None) = (\<not> accepted v)"
  by (cases v) (auto simp: decode_members_None)

lemma decode_members_map:
  "decode_members ms acc = Some m \<Longrightarrow>
     map_of m = map_of acc ++ map_of (rev (map (\<lambda>m. (fst m, string_of (snd m))) ms))
     \<and> (distinct (map fst acc) \<longrightarrow> distinct (map fst m))"
proof (induction ms acc rule: decode_members.induct)
  case (1 acc)
  then show ?case by simp
next
  case (2 k x ms acc)
  then obtain v where v: "decode_string x = Some v" by (auto split: option.splits)
  then have sv: "string_of x = v" using decode_string_value by blast
  have "decode_members ms (AList.update k v acc) = Some m" using 2(2) v by simp
  from 2(1) [OF v this]
  have ih: "map_of m = map_of (AList.update k v acc) ++ map_of (rev (map (\<lambda>m. (fst m, string_of (snd m))) ms))"
    "distinct (map fst (AList.update k v acc)) \<longrightarrow> distinct (map fst m)"
    by simp_all
  have "map_of (AList.update k v acc) ++ map_of (rev (map (\<lambda>m. (fst m, string_of (snd m))) ms))
      = map_of acc ++ map_of (rev (map (\<lambda>m. (fst m, string_of (snd m))) ((k, x) # ms)))"
    by (rule ext) (simp add: update_conv' map_add_def sv split: option.splits)
  then show ?case using ih by (simp add: distinct_update)
qed

lemma decoded_object:
  assumes "accepted (JObject ms)"
  shows "distinct (map fst (decoded (JObject ms)))
     \<and> map_of (decoded (JObject ms)) = map_of (rev (map (\<lambda>m. (fst m, string_of (snd m))) ms))"
proof -
  obtain m where m: "decode_members ms [] = Some m"
    using assms decode_members_None [of ms "[]"] by auto
  from decode_members_map [OF m] show ?thesis using m by (simp add: decoded_def)
qed

lemma pairs_fold_Add_to:
  "mset (store_pairs (values (fold (\<lambda>(k, v) r. Values_Add_to k v r) m r)))
     = mset (store_pairs (values r)) + mset m"
  by (induction m arbitrary: r) (auto simp: pairs_Values_Add_to)

lemma Request_Header_then_Add:
  assumes "Request_Header s r = (s1, r1, h)"
  shows "\<exists>s2. HeaderType_Add s1 h ''Content-Type'' v = Inr s2 \<and> content_type s2 r1 = v
           \<and> values r1 = values r"
proof (cases "header r")
  case None
  then show ?thesis
    using assms
    by (auto simp: Request_Header_def make_HeaderType_def HeaderType_Add_def content_type_def
        HeaderType_Get_def map_of_update_same)
next
  case (Some a)
  then have "s1 = s" "r1 = r" "h = Some a"
    using assms by (simp_all add: Request_Header_def)
  then show ?thesis
    using Some
    by (simp add: HeaderType_Add_def content_type_def HeaderType_Get_def map_of_update_same)
qed

lemma JSON_accepted:
  assumes "json_scan P j = Some v" and "accepted v"
  shows "case Request_JSON P s r j of (s', r', e) \<Rightarrow>
           e = None
           \<and> mset (store_pairs (values r')) = mset (store_pairs (values r)) + mset (decoded v)
           \<and> content_type s' r' = ''application/json''"
proof -
  obtain m where m: "decode_map v = Some m" using assms(2) decode_map_None [of v] by auto
  then have u: "json_Unmarshal P j = Inr m" using assms(1) by (simp add: json_Unmarshal_def)
  define r1 where "r1 = fold (\<lambda>(k, v) r. Values_Add_to k v r) m r"
  obtain s1 r2 h where hd: "Request_Header s r1 = (s1, r2, h)" by (cases "Request_Header s r1") auto
  obtain s2 where s2: "HeaderType_Add s1 h ''Content-Type'' ''application/json'' = Inr s2"
    "content_type s2 r2 = ''application/json''" "values r2 = values r1"
    using Request_Header_then_Add [OF hd] by blast
  have "Request_JSON P s r j = (s2, r2, None)"
    using u hd s2(1) by (simp add: Request_JSON_def r1_def)
  moreover have "mset (store_pairs (values r2)) = mset (store_pairs (values r)) + mset (decoded v)"
    using s2(3) m by (simp add: r1_def pairs_fold_Add_to decoded_def)
  ultimately show ?thesis using s2(2) by simp
qed

lemma JSON_fails_iff:
  "(JSON_error (Request_JSON P s r j) \<noteq> None)
     = (case json_scan P j of None \<Rightarrow> True | Some v \<Rightarrow> \<not> accepted v)"
proof (cases "json_scan P j")
  case None
  then show ?thesis by (simp add: Request_JSON_def json_Unmarshal_def JSON_error_def)
next
  case (Some v)
  show ?thesis
  proof (cases "accepted v")
    case True
    from JSON_accepted [OF Some True, where s = s and r = r] show ?thesis using Some True
      by (auto simp: JSON_error_def)
  next
    case False
    then have "decode_map v = None" using decode_map_None by blast
    then show ?thesis using Some False
      by (simp add: Request_JSON_def json_Unmarshal_def JSON_error_def)
  qed
qed

text \<open>
  C8, amended. \<^verbatim>\<open>JSON\<close> fails exactly when the input is not JSON, or is a JSON value
  other than \<^verbatim>\<open>null\<close> and other than an object whose member values are all strings or
  \<^verbatim>\<open>null\<close>. On success it adds the decoded pairs to the store, which keeps the pairs it
  had, and sets the content type to \<^verbatim>\<open>application/json\<close>. The decoded pairs are none
  for \<^verbatim>\<open>null\<close>; for an object they hold each member name once, with the value last
  given for it, \<^verbatim>\<open>null\<close> read as the empty string.
\<close>

theorem JSON_result:
  "(JSON_error (Request_JSON P s r j) \<noteq> None)
      = (case json_scan P j of None \<Rightarrow> True | Some v \<Rightarrow> \<not> accepted v)
   \<and> (\<forall>v. json_scan P j = Some v \<and> accepted v \<longrightarrow>
         (case Request_JSON P s r j of (s', r', e) \<Rightarrow>
            e = None
            \<and> mset (store_pairs (values r')) = mset (store_pairs (values r)) + mset (decoded v)
            \<and> content_type s' r' = ''application/json''))
   \<and> decoded JNull = []
   \<and> (\<forall>ms. accepted (JObject ms) \<longrightarrow>
         distinct (map fst (decoded (JObject ms)))
         \<and> map_of (decoded (JObject ms)) = map_of (rev (map (\<lambda>m. (fst m, string_of (snd m))) ms)))"
  using JSON_fails_iff JSON_accepted decoded_object by (simp add: decoded_def)

text \<open>
  C8, as the claim states it, fails: the claim has \<^verbatim>\<open>JSON\<close> fail exactly when the input
  is not a JSON object whose values are all strings. The input \<^verbatim>\<open>null\<close> is no object,
  and \<^verbatim>\<open>JSON\<close> returns no error for it: \<^verbatim>\<open>json.Unmarshal\<close> accepts \<^verbatim>\<open>null\<close> for a map.
\<close>

theorem JSON_accepts_null:
  "json_scan bench ''null'' = Some JNull
   \<and> \<not> flat_string_object JNull
   \<and> JSON_error (Request_JSON bench empty_store (new_Request ''https://127.0.0.1:8443/'') ''null'') = None"
  by (simp add: bench_def bench_scan_def Request_JSON_def json_Unmarshal_def JSON_error_def
      Request_Header_def make_HeaderType_def HeaderType_Add_def new_Request_def)

theorem JSON_result_witness:
  \<open>json_scan bench ''{"key":"value"}'' = Some (JObject [(''key'', JString ''value'')])
   \<and> accepted (JObject [(''key'', JString ''value'')])
   \<and> (case Request_JSON bench empty_store (new_Request ''https://127.0.0.1:8443/'') ''{"key":"value"}'' of
        (s', r', e) \<Rightarrow>
           e = None
           \<and> mset (store_pairs (values r')) = {#(''key'', ''value'')#}
           \<and> content_type s' r' = ''application/json'')
   \<and> json_scan bench ''hello world'' = None
   \<and> JSON_error (Request_JSON bench empty_store (new_Request ''https://127.0.0.1:8443/'') ''hello world'')
        \<noteq> None\<close>
proof -
  have sc: \<open>json_scan bench ''{"key":"value"}'' = Some (JObject [(''key'', JString ''value'')])\<close>
    "json_scan bench ''hello world'' = None"
    by (simp_all add: bench_def bench_scan_def)
  have ac: "accepted (JObject [(''key'', JString ''value'')])" by simp
  have de: "decoded (JObject [(''key'', JString ''value'')]) = [(''key'', ''value'')]"
    by (simp add: decoded_def)
  have st: "store_pairs (values (new_Request ''https://127.0.0.1:8443/'')) = []"
    by (simp add: new_Request_def store_pairs_def)
  from JSON_result [of bench empty_store "new_Request ''https://127.0.0.1:8443/''" \<open>''{"key":"value"}''\<close>]
    JSON_result [of bench empty_store "new_Request ''https://127.0.0.1:8443/''" "''hello world''"]
    sc ac
  show ?thesis by (simp add: de st)
qed

end
